theory Spec2Isabelle
  imports Complex_Main
begin

section \<open>Values of the conversion module\<close>

text \<open>
  The module \<^verbatim>\<open>eim/tools/analysis.py\<close> is a chain of stateless conversions over
  numbers and numpy arrays. A float64 value is either finite or one of the three special
  values of the format; a finite value is written as the real number it denotes. The
  sign of zero is not modelled: \<open>Fin 0\<close> stands for the positive zero, also where
  the machine would return the negative one, and a division by it has the sign of the
  dividend.
\<close>

datatype npfloat = Fin real | PInf | NInf | NaN

text \<open>The exceptions a Python arithmetic expression over these values can raise.\<close>

datatype pyerror = TypeError | ZeroDivisionError | OverflowError

text \<open>
  An item of a Python list is a float (an \<^verbatim>\<open>int\<close> that a float holds exactly is
  written as that float) or a string.
\<close>

datatype pyitem = Num npfloat | Str

text \<open>
  A numpy array is zero-dimensional (what arithmetic on it yields is a numpy scalar, which
  behaves the same way), one-dimensional over float64, an array of strings, which is
  what \<^verbatim>\<open>np.asarray\<close> builds from a string and from a list that holds one, or the
  zero-dimensional array of dtype \<^verbatim>\<open>object\<close> that \<^verbatim>\<open>np.asarray\<close> builds from a
  Python \<^verbatim>\<open>int\<close> outside the 64-bit range.
\<close>

datatype ndarray = Zero_d npfloat | One_d "npfloat list" | Str_arr | Int_obj int

text \<open>
  What a caller passes to a conversion function, and what it gets back: a Python float,
  a Python \<^verbatim>\<open>int\<close> of any size, a flat list, a numpy array, or a string. Complex
  numbers, nested lists, arrays of higher dimension and other objects are outside this
  model.
\<close>

datatype pyval = PyFloat npfloat | PyInt int | PyList "pyitem list" | PyArr ndarray | PyStr

subsection \<open>The arithmetic: exact, or rounded to binary64\<close>

text \<open>
  An arithmetic says which float64 value an operation returns when its exact result is
  the real \<open>x\<close>. The specification states its formulas in \<open>exact\<close> arithmetic. The
  machine computes in \<open>binary64\<close>: the exact result is rounded to the nearest number
  with a significand of 53 bits, a tie to the one with an even significand; below
  \<open>2 ^ -1022\<close> the spacing stays \<open>2 ^ -1074\<close> (subnormal numbers), and a rounded
  magnitude of \<open>2 ^ 1024\<close> or more is an infinity.
\<close>

type_synonym arithmetic = "real \<Rightarrow> npfloat"

definition exact :: arithmetic where
  "exact x = Fin x"

definition round_half_even :: "real \<Rightarrow> int" where
  "round_half_even t =
     (let n = \<lfloor>t\<rfloor>; d = t - of_int n
      in if d < 1 / 2 then n else if 1 / 2 < d then n + 1 else if even n then n else n + 1)"

definition binary64 :: arithmetic where
  "binary64 x =
     (if x = 0 then Fin 0
      else let e = max \<lfloor>log 2 \<bar>x\<bar>\<rfloor> (- 1022);
               q = 2 powr (of_int e - 52);
               y = of_int (round_half_even (x / q)) * q
           in if 2 ^ 1024 \<le> \<bar>y\<bar> then (if 0 < x then PInf else NInf) else Fin y)"

subsection \<open>float64 operations\<close>

text \<open>
  Division, multiplication, subtraction and the natural logarithm in an arithmetic
  \<open>ar\<close>, with the special values as IEEE 754 defines them; none of them raises. With
  numpy's default error state a division by zero and a logarithm outside the domain emit
  a warning and return the special value. The logarithm is taken to return the float64
  value nearest to the exact one.
\<close>

fun float_truediv_in :: "arithmetic \<Rightarrow> npfloat \<Rightarrow> npfloat \<Rightarrow> npfloat" where
  "float_truediv_in ar NaN y = NaN"
| "float_truediv_in ar x NaN = NaN"
| "float_truediv_in ar (Fin a) (Fin b) =
     (if b = 0 then (if a = 0 then NaN else if 0 < a then PInf else NInf) else ar (a / b))"
| "float_truediv_in ar (Fin a) PInf = Fin 0"
| "float_truediv_in ar (Fin a) NInf = Fin 0"
| "float_truediv_in ar PInf (Fin b) = (if 0 \<le> b then PInf else NInf)"
| "float_truediv_in ar NInf (Fin b) = (if 0 \<le> b then NInf else PInf)"
| "float_truediv_in ar PInf y = NaN"
| "float_truediv_in ar NInf y = NaN"

fun float_mul_in :: "arithmetic \<Rightarrow> npfloat \<Rightarrow> npfloat \<Rightarrow> npfloat" where
  "float_mul_in ar NaN y = NaN"
| "float_mul_in ar x NaN = NaN"
| "float_mul_in ar (Fin a) (Fin b) = ar (a * b)"
| "float_mul_in ar (Fin a) PInf = (if a = 0 then NaN else if 0 < a then PInf else NInf)"
| "float_mul_in ar (Fin a) NInf = (if a = 0 then NaN else if 0 < a then NInf else PInf)"
| "float_mul_in ar PInf (Fin b) = (if b = 0 then NaN else if 0 < b then PInf else NInf)"
| "float_mul_in ar NInf (Fin b) = (if b = 0 then NaN else if 0 < b then NInf else PInf)"
| "float_mul_in ar PInf PInf = PInf"
| "float_mul_in ar PInf NInf = NInf"
| "float_mul_in ar NInf PInf = NInf"
| "float_mul_in ar NInf NInf = PInf"

fun float_sub_in :: "arithmetic \<Rightarrow> npfloat \<Rightarrow> npfloat \<Rightarrow> npfloat" where
  "float_sub_in ar NaN y = NaN"
| "float_sub_in ar x NaN = NaN"
| "float_sub_in ar (Fin a) (Fin b) = ar (a - b)"
| "float_sub_in ar (Fin a) PInf = NInf"
| "float_sub_in ar (Fin a) NInf = PInf"
| "float_sub_in ar PInf (Fin b) = PInf"
| "float_sub_in ar NInf (Fin b) = NInf"
| "float_sub_in ar PInf PInf = NaN"
| "float_sub_in ar PInf NInf = PInf"
| "float_sub_in ar NInf PInf = NInf"
| "float_sub_in ar NInf NInf = NaN"

fun float_log_in :: "arithmetic \<Rightarrow> npfloat \<Rightarrow> npfloat" where
  "float_log_in ar (Fin a) = (if 0 < a then ar (ln a) else if a = 0 then NInf else NaN)"
| "float_log_in ar PInf = PInf"
| "float_log_in ar NInf = NaN"
| "float_log_in ar NaN = NaN"

text \<open>
  The conversion of a Python \<^verbatim>\<open>int\<close> to a float, which rounds and raises
  \<^verbatim>\<open>OverflowError\<close> when no finite float is near.
\<close>

definition int_to_float :: "arithmetic \<Rightarrow> int \<Rightarrow> pyerror + npfloat" where
  "int_to_float ar i =
     (case ar (of_int i) of Fin y \<Rightarrow> Inr (Fin y) | PInf \<Rightarrow> Inl OverflowError
      | NInf \<Rightarrow> Inl OverflowError | NaN \<Rightarrow> Inl OverflowError)"

subsection \<open>numpy: coercion and elementwise operations\<close>

text \<open>Sequencing of two steps, the second of which runs only when the first returned.\<close>

fun and_then :: "pyerror + 'a \<Rightarrow> ('a \<Rightarrow> pyerror + 'b) \<Rightarrow> pyerror + 'b" where
  "and_then (Inl e) f = Inl e"
| "and_then (Inr x) f = f x"

fun is_num :: "pyitem \<Rightarrow> bool" where
  "is_num (Num x) = True"
| "is_num Str = False"

fun num_of :: "pyitem \<Rightarrow> npfloat" where
  "num_of (Num x) = x"
| "num_of Str = NaN"

text \<open>
  \<^verbatim>\<open>np.asarray\<close> itself does not raise on these inputs: a float becomes a
  zero-dimensional array, and so does an \<^verbatim>\<open>int\<close> of the 64-bit range, which the
  first operation with a float converts to float64; a list of numbers becomes a
  one-dimensional array, an array is returned as it is, a string and a list that holds a
  string become an array of strings, and an \<^verbatim>\<open>int\<close> outside the 64-bit range is
  kept as an object.
\<close>

fun asarray_in :: "arithmetic \<Rightarrow> pyval \<Rightarrow> ndarray" where
  "asarray_in ar (PyFloat x) = Zero_d x"
| "asarray_in ar (PyInt i) =
     (if - (2 ^ 63) \<le> i \<and> i < 2 ^ 64 then Zero_d (ar (of_int i)) else Int_obj i)"
| "asarray_in ar (PyList xs) =
     (if list_all is_num xs then One_d (map num_of xs) else Str_arr)"
| "asarray_in ar (PyArr a) = a"
| "asarray_in ar PyStr = Str_arr"

text \<open>
  An arithmetic operator between an array and a Python float applies a function on
  floats to every element and keeps the shape. On an array of strings it raises
  \<^verbatim>\<open>TypeError\<close>; on an object that is a Python \<^verbatim>\<open>int\<close> it is Python's operator,
  which converts the \<^verbatim>\<open>int\<close> to a float first.
\<close>

fun ufunc_in :: "arithmetic \<Rightarrow> (npfloat \<Rightarrow> npfloat) \<Rightarrow> ndarray \<Rightarrow> pyerror + ndarray" where
  "ufunc_in ar f (Zero_d x) = Inr (Zero_d (f x))"
| "ufunc_in ar f (One_d xs) = Inr (One_d (map f xs))"
| "ufunc_in ar f Str_arr = Inl TypeError"
| "ufunc_in ar f (Int_obj i) = and_then (int_to_float ar i) (\<lambda>x. Inr (Zero_d (f x)))"

text \<open>
  \<^verbatim>\<open>np.log\<close> works elementwise too; on strings and on an object that is a Python
  \<^verbatim>\<open>int\<close>, which has no method \<^verbatim>\<open>log\<close>, it raises \<^verbatim>\<open>TypeError\<close> (numpy 1.17 and
  later).
\<close>

fun np_log_in :: "arithmetic \<Rightarrow> ndarray \<Rightarrow> pyerror + ndarray" where
  "np_log_in ar (Zero_d x) = Inr (Zero_d (float_log_in ar x))"
| "np_log_in ar (One_d xs) = Inr (One_d (map (float_log_in ar) xs))"
| "np_log_in ar Str_arr = Inl TypeError"
| "np_log_in ar (Int_obj i) = Inl TypeError"

subsection \<open>Python operators with a float literal on the right\<close>

text \<open>
  \<^verbatim>\<open>measure / c\<close> and \<^verbatim>\<open>measure * c\<close> for a float \<open>c\<close>, as Python dispatches
  them on the left operand: float arithmetic on a float (where a zero divisor raises)
  and on an \<^verbatim>\<open>int\<close>, which is converted first, numpy's elementwise operation on an
  array, and \<^verbatim>\<open>TypeError\<close> on a list (a list has no division, and its multiplication
  takes an \<^verbatim>\<open>int\<close> only) and on a string.
\<close>

fun py_truediv_in :: "arithmetic \<Rightarrow> pyval \<Rightarrow> real \<Rightarrow> pyerror + pyval" where
  "py_truediv_in ar (PyFloat x) c =
     (if c = 0 then Inl ZeroDivisionError
      else Inr (PyFloat (float_truediv_in ar x (Fin c))))"
| "py_truediv_in ar (PyInt i) c =
     and_then (int_to_float ar i) (\<lambda>x.
       if c = 0 then Inl ZeroDivisionError
       else Inr (PyFloat (float_truediv_in ar x (Fin c))))"
| "py_truediv_in ar (PyArr a) c =
     and_then (ufunc_in ar (\<lambda>x. float_truediv_in ar x (Fin c)) a) (\<lambda>r. Inr (PyArr r))"
| "py_truediv_in ar (PyList xs) c = Inl TypeError"
| "py_truediv_in ar PyStr c = Inl TypeError"

fun py_mul_in :: "arithmetic \<Rightarrow> pyval \<Rightarrow> real \<Rightarrow> pyerror + pyval" where
  "py_mul_in ar (PyFloat x) c = Inr (PyFloat (float_mul_in ar x (Fin c)))"
| "py_mul_in ar (PyInt i) c =
     and_then (int_to_float ar i) (\<lambda>x. Inr (PyFloat (float_mul_in ar x (Fin c))))"
| "py_mul_in ar (PyArr a) c =
     and_then (ufunc_in ar (\<lambda>x. float_mul_in ar x (Fin c)) a) (\<lambda>r. Inr (PyArr r))"
| "py_mul_in ar (PyList xs) c = Inl TypeError"
| "py_mul_in ar PyStr c = Inl TypeError"

section \<open>The conversion functions\<close>

text \<open>
  Each function is given once, in an arbitrary arithmetic, line by line as the source
  has it. The literals \<open>1023.\<close>, \<open>5.\<close>, \<open>1.\<close>, \<open>1000\<close>, \<open>1000000.\<close> and
  \<open>1000000000.\<close> are float64 values as they are written; \<open>0.861\<close> and \<open>0.00117\<close>
  are not, and stand for the floats the arithmetic makes of them.
\<close>

text \<open>\<^verbatim>\<open>return (np.asarray(readings) / 1023.) * 5.\<close>\<close>

definition bioemo_readings_to_volts_in :: "arithmetic \<Rightarrow> pyval \<Rightarrow> pyerror + pyval" where
  "bioemo_readings_to_volts_in ar readings =
     and_then (ufunc_in ar (\<lambda>x. float_truediv_in ar x (Fin 1023)) (asarray_in ar readings))
       (\<lambda>q.
     and_then (ufunc_in ar (\<lambda>x. float_mul_in ar x (Fin 5)) q) (\<lambda>v.
     Inr (PyArr v)))"

text \<open>
  \<^verbatim>\<open>
  volts = np.asarray(volts)
  left = 0.861 / 0.00117
  right = 1. / 0.00117
  right = right * np.log(volts)
  return (left - right) * 1000
  \<close>
\<close>

definition bioemo_volts_to_ohms_in :: "arithmetic \<Rightarrow> pyval \<Rightarrow> pyerror + pyval" where
  "bioemo_volts_to_ohms_in ar volts =
     (let volts' = asarray_in ar volts;
          left = float_truediv_in ar (ar 0.861) (ar 0.00117);
          right = float_truediv_in ar (Fin 1) (ar 0.00117)
      in and_then (np_log_in ar volts') (\<lambda>l.
         and_then (ufunc_in ar (\<lambda>x. float_mul_in ar right x) l) (\<lambda>right'.
         and_then (ufunc_in ar (\<lambda>x. float_sub_in ar left x) right') (\<lambda>d.
         and_then (ufunc_in ar (\<lambda>x. float_mul_in ar x (Fin 1000)) d) (\<lambda>r.
         Inr (PyArr r))))))"

text \<open>\<^verbatim>\<open>return 1. / np.asarray(ohms)\<close>\<close>

definition ohms_to_siemens_in :: "arithmetic \<Rightarrow> pyval \<Rightarrow> pyerror + pyval" where
  "ohms_to_siemens_in ar ohms =
     and_then (ufunc_in ar (\<lambda>x. float_truediv_in ar (Fin 1) x) (asarray_in ar ohms))
       (\<lambda>r. Inr (PyArr r))"

text \<open>\<^verbatim>\<open>return ohms_to_siemens(siemens)\<close>\<close>

definition siemens_to_ohms_in :: "arithmetic \<Rightarrow> pyval \<Rightarrow> pyerror + pyval" where
  "siemens_to_ohms_in ar siemens = ohms_to_siemens_in ar siemens"

text \<open>
  \<^verbatim>\<open>
  ohms = bioemo_volts_to_ohms(volts)
  siemens = ohms_to_siemens(ohms)
  return siemens
  \<close>
\<close>

definition bioemo_volts_to_siemens_in :: "arithmetic \<Rightarrow> pyval \<Rightarrow> pyerror + pyval" where
  "bioemo_volts_to_siemens_in ar volts =
     and_then (bioemo_volts_to_ohms_in ar volts) (\<lambda>ohms.
     and_then (ohms_to_siemens_in ar ohms) (\<lambda>siemens.
     Inr siemens))"

text \<open>
  \<^verbatim>\<open>
  readings = np.asarray(readings)
  volts = bioemo_readings_to_volts(readings)
  return bioemo_volts_to_siemens(volts)
  \<close>
\<close>

definition bioemo_readings_to_siemens_in :: "arithmetic \<Rightarrow> pyval \<Rightarrow> pyerror + pyval" where
  "bioemo_readings_to_siemens_in ar readings =
     (let readings' = PyArr (asarray_in ar readings)
      in and_then (bioemo_readings_to_volts_in ar readings') (\<lambda>volts.
         bioemo_volts_to_siemens_in ar volts))"

text \<open>
  The six rescaling helpers apply the operator to their argument as it comes, without
  \<^verbatim>\<open>np.asarray\<close>: \<^verbatim>\<open>return measure / 1000.\<close> and so on.
\<close>

definition unit_to_kilounit_in :: "arithmetic \<Rightarrow> pyval \<Rightarrow> pyerror + pyval" where
  "unit_to_kilounit_in ar measure' = py_truediv_in ar measure' 1000"

definition unit_to_megaunit_in :: "arithmetic \<Rightarrow> pyval \<Rightarrow> pyerror + pyval" where
  "unit_to_megaunit_in ar measure' = py_truediv_in ar measure' 1000000"

definition unit_to_gigaunit_in :: "arithmetic \<Rightarrow> pyval \<Rightarrow> pyerror + pyval" where
  "unit_to_gigaunit_in ar measure' = py_truediv_in ar measure' 1000000000"

definition unit_to_milliunit_in :: "arithmetic \<Rightarrow> pyval \<Rightarrow> pyerror + pyval" where
  "unit_to_milliunit_in ar measure' = py_mul_in ar measure' 1000"

definition unit_to_microunit_in :: "arithmetic \<Rightarrow> pyval \<Rightarrow> pyerror + pyval" where
  "unit_to_microunit_in ar measure' = py_mul_in ar measure' 1000000"

definition unit_to_nanounit_in :: "arithmetic \<Rightarrow> pyval \<Rightarrow> pyerror + pyval" where
  "unit_to_nanounit_in ar measure' = py_mul_in ar measure' 1000000000"

subsection \<open>The functions in exact arithmetic\<close>

text \<open>
  Under the source's names: the functions as the specification's formulas read them,
  with every operation exact.
\<close>

definition float_truediv :: "npfloat \<Rightarrow> npfloat \<Rightarrow> npfloat" where
  "float_truediv = float_truediv_in exact"

definition bioemo_readings_to_volts :: "pyval \<Rightarrow> pyerror + pyval" where
  "bioemo_readings_to_volts = bioemo_readings_to_volts_in exact"

definition bioemo_volts_to_ohms :: "pyval \<Rightarrow> pyerror + pyval" where
  "bioemo_volts_to_ohms = bioemo_volts_to_ohms_in exact"

definition ohms_to_siemens :: "pyval \<Rightarrow> pyerror + pyval" where
  "ohms_to_siemens = ohms_to_siemens_in exact"

definition siemens_to_ohms :: "pyval \<Rightarrow> pyerror + pyval" where
  "siemens_to_ohms = siemens_to_ohms_in exact"

definition bioemo_volts_to_siemens :: "pyval \<Rightarrow> pyerror + pyval" where
  "bioemo_volts_to_siemens = bioemo_volts_to_siemens_in exact"

definition bioemo_readings_to_siemens :: "pyval \<Rightarrow> pyerror + pyval" where
  "bioemo_readings_to_siemens = bioemo_readings_to_siemens_in exact"

definition unit_to_kilounit :: "pyval \<Rightarrow> pyerror + pyval" where
  "unit_to_kilounit = unit_to_kilounit_in exact"

definition unit_to_megaunit :: "pyval \<Rightarrow> pyerror + pyval" where
  "unit_to_megaunit = unit_to_megaunit_in exact"

definition unit_to_gigaunit :: "pyval \<Rightarrow> pyerror + pyval" where
  "unit_to_gigaunit = unit_to_gigaunit_in exact"

definition unit_to_milliunit :: "pyval \<Rightarrow> pyerror + pyval" where
  "unit_to_milliunit = unit_to_milliunit_in exact"

definition unit_to_microunit :: "pyval \<Rightarrow> pyerror + pyval" where
  "unit_to_microunit = unit_to_microunit_in exact"

definition unit_to_nanounit :: "pyval \<Rightarrow> pyerror + pyval" where
  "unit_to_nanounit = unit_to_nanounit_in exact"

section \<open>Notions of the specification\<close>

text \<open>
  The specification speaks of inputs that can be interpreted as a real-number scalar or a
  homogeneous numeric array, of inputs that cannot, and of the shape of a value. In this
  model the first are the inputs of float64 numbers: a float, an \<^verbatim>\<open>int\<close> of 64 bits,
  a list of floats, an array of floats. The second are the inputs that hold a string.
  The shape is written as numpy writes it: empty for a scalar, the length for a
  one-dimensional sequence.
\<close>

fun float64_input :: "pyval \<Rightarrow> bool" where
  "float64_input (PyFloat x) = True"
| "float64_input (PyInt i) = (- (2 ^ 63) \<le> i \<and> i < 2 ^ 63)"
| "float64_input (PyList xs) = list_all is_num xs"
| "float64_input (PyArr (Zero_d x)) = True"
| "float64_input (PyArr (One_d xs)) = True"
| "float64_input (PyArr Str_arr) = False"
| "float64_input (PyArr (Int_obj i)) = False"
| "float64_input PyStr = False"

fun string_input :: "pyval \<Rightarrow> bool" where
  "string_input PyStr = True"
| "string_input (PyList xs) = (\<not> list_all is_num xs)"
| "string_input (PyArr Str_arr) = True"
| "string_input (PyArr (Zero_d x)) = False"
| "string_input (PyArr (One_d xs)) = False"
| "string_input (PyArr (Int_obj i)) = False"
| "string_input (PyFloat x) = False"
| "string_input (PyInt i) = False"

fun plain_list :: "pyval \<Rightarrow> bool" where
  "plain_list (PyList xs) = True"
| "plain_list (PyFloat x) = False"
| "plain_list (PyInt i) = False"
| "plain_list (PyArr a) = False"
| "plain_list PyStr = False"

fun shape :: "pyval \<Rightarrow> nat list" where
  "shape (PyFloat x) = []"
| "shape (PyInt i) = []"
| "shape (PyList xs) = [length xs]"
| "shape (PyArr (Zero_d x)) = []"
| "shape (PyArr (One_d xs)) = [length xs]"
| "shape (PyArr Str_arr) = []"
| "shape (PyArr (Int_obj i)) = []"
| "shape PyStr = []"

text \<open>A call that succeeds fully: it returns float64 values in the shape of the input.\<close>

definition returns_in_shape :: "(pyval \<Rightarrow> pyerror + pyval) \<Rightarrow> pyval \<Rightarrow> bool" where
  "returns_in_shape f v \<longleftrightarrow> (\<exists>r. f v = Inr r \<and> float64_input r \<and> shape r = shape v)"

text \<open>
  The twelve conversion functions of the module: the six of the sensor pipeline, which
  pass their argument through \<^verbatim>\<open>np.asarray\<close>, and the six rescaling helpers.
\<close>

definition pipeline_functions_in :: "arithmetic \<Rightarrow> (pyval \<Rightarrow> pyerror + pyval) list" where
  "pipeline_functions_in ar =
     [bioemo_readings_to_volts_in ar, bioemo_volts_to_ohms_in ar,
      bioemo_volts_to_siemens_in ar, bioemo_readings_to_siemens_in ar,
      ohms_to_siemens_in ar, siemens_to_ohms_in ar]"

definition rescaling_helpers_in :: "arithmetic \<Rightarrow> (pyval \<Rightarrow> pyerror + pyval) list" where
  "rescaling_helpers_in ar =
     [unit_to_kilounit_in ar, unit_to_megaunit_in ar, unit_to_gigaunit_in ar,
      unit_to_milliunit_in ar, unit_to_microunit_in ar, unit_to_nanounit_in ar]"

text \<open>
  The expression of the specification's cross-scale composition check,
  \<^verbatim>\<open>unit_to_kilounit(unit_to_milliunit(x)) / 1e6\<close>.
\<close>

definition cross_scale_check_in :: "arithmetic \<Rightarrow> pyval \<Rightarrow> pyerror + pyval" where
  "cross_scale_check_in ar x =
     and_then (and_then (unit_to_milliunit_in ar x) (unit_to_kilounit_in ar))
       (\<lambda>y. py_truediv_in ar y 1000000)"

section \<open>Bounds on the exponential function\<close>

text \<open>
  The concrete scenarios need logarithms to many digits. The partial sums of the
  exponential series are evaluated in Horner form, from the innermost term outwards:
  \<open>taylor_tail x r m k\<close> is the series from its term \<open>m\<close> on, divided by that term, cut
  after \<open>k\<close> terms and closed with the factor \<open>r\<close> on the next one.
\<close>

fun taylor_tail :: "real \<Rightarrow> real \<Rightarrow> nat \<Rightarrow> nat \<Rightarrow> real" where
  "taylor_tail x r m 0 = r"
| "taylor_tail x r m (Suc k) = 1 + x / real (Suc m) * taylor_tail x r (Suc m) k"

subsection \<open>The exponential series in Horner form\<close>

lemma taylor_tail_sum:
  "taylor_tail x r m k =
     (\<Sum>j<k. x ^ j * fact m / fact (m + j)) + r * x ^ k * fact m / fact (m + k)"
proof (induction k arbitrary: m)
  case 0
  then show ?case by simp
next
  case (Suc k)
  have f: "fact (Suc m) = real (Suc m) * fact m" by simp
  have "x / real (Suc m) * (\<Sum>j<k. x ^ j * fact (Suc m) / fact (Suc m + j)) =
        (\<Sum>j<k. x ^ Suc j * fact m / fact (m + Suc j))"
    unfolding sum_distrib_left f by (rule sum.cong) (simp_all del: fact_Suc of_nat_Suc)
  moreover have "x / real (Suc m) * (r * x ^ k * fact (Suc m) / fact (Suc m + k)) =
        r * x ^ Suc k * fact m / fact (m + Suc k)"
    unfolding f by (simp del: fact_Suc of_nat_Suc)
  ultimately show ?case
    by (simp add: Suc.IH sum.lessThan_Suc_shift distrib_left
        del: sum.lessThan_Suc fact_Suc of_nat_Suc)
qed

lemma taylor_tail_exp:
  "taylor_tail x r 0 n = (\<Sum>m<n. x ^ m / fact m) + r * x ^ n / fact n"
  by (simp add: taylor_tail_sum)

lemma exp_le_taylor_tail:
  assumes "0 \<le> x" "x \<le> 1"
  shows "exp x \<le> taylor_tail x 3 0 n"
proof -
  obtain t where t: "\<bar>t\<bar> \<le> \<bar>x\<bar>"
    and e: "exp x = (\<Sum>m<n. x ^ m / fact m) + (exp t / fact n) * x ^ n"
    using Maclaurin_exp_le [of x n] by blast
  have "t \<le> 1" using t assms by linarith
  then have "exp t \<le> exp 1" by simp
  then have "exp t \<le> 3" using exp_le by linarith
  then have "exp t * (x ^ n / fact n) \<le> 3 * (x ^ n / fact n)"
    using assms by (intro mult_right_mono) simp_all
  then show ?thesis using e by (simp add: taylor_tail_exp field_simps)
qed

lemma taylor_tail_le_exp:
  assumes "0 \<le> x"
  shows "taylor_tail x 0 0 n \<le> exp x"
proof -
  obtain t where e: "exp x = (\<Sum>m<n. x ^ m / fact m) + (exp t / fact n) * x ^ n"
    using Maclaurin_exp_le [of x n] by blast
  have "0 \<le> (exp t / fact n) * x ^ n" using assms by simp
  then show ?thesis using e by (simp add: taylor_tail_exp)
qed

lemma taylor_tail_one: "taylor_tail x r m 1 = 1 + x / (real m + 1) * r"
  by (simp add: add.commute)

lemma taylor_tail_le:
  assumes "taylor_tail x r m' k \<le> c" "m' = m + 1" "k' = k + 1" "0 \<le> x"
    "1 + x / real m' * c \<le> c'"
  shows "taylor_tail x r m k' \<le> c'"
proof -
  have "x / real m' * taylor_tail x r m' k \<le> x / real m' * c"
    using assms(1,4) by (intro mult_left_mono) simp_all
  then show ?thesis using assms(2,3,5) by simp
qed

lemma taylor_tail_ge:
  assumes "c \<le> taylor_tail x r m' k" "m' = m + 1" "k' = k + 1" "0 \<le> x"
    "c' \<le> 1 + x / real m' * c"
  shows "c' \<le> taylor_tail x r m k'"
proof -
  have "x / real m' * c \<le> x / real m' * taylor_tail x r m' k"
    using assms(1,4) by (intro mult_left_mono) simp_all
  then show ?thesis using assms(2,3,5) by simp
qed


lemma ln_2_upper: "ln 2 < (0.693147181::real)"
proof -
  have s13: "1 \<le> taylor_tail 0.693147181 0 13 1"
    by (simp add: taylor_tail_one)
  have s12: "1.053319013923 \<le> taylor_tail 0.693147181 0 12 2"
    by (rule taylor_tail_ge [OF s13]) simp_all
  have s11: "1.0608420920995 \<le> taylor_tail 0.693147181 0 11 3"
    by (rule taylor_tail_ge [OF s12]) simp_all
  have s10: "1.0668472459659 \<le> taylor_tail 0.693147181 0 10 4"
    by (rule taylor_tail_ge [OF s11]) simp_all
  have s9: "1.0739482161098 \<le> taylor_tail 0.693147181 0 9 5"
    by (rule taylor_tail_ge [OF s10]) simp_all
  have s8: "1.0827115753929 \<le> taylor_tail 0.693147181 0 8 6"
    by (rule taylor_tail_ge [OF s9]) simp_all
  have s7: "1.0938098095399 \<le> taylor_tail 0.693147181 0 7 7"
    by (rule taylor_tail_ge [OF s8]) simp_all
  have s6: "1.1083101694332 \<le> taylor_tail 0.693147181 0 6 8"
    by (rule taylor_tail_ge [OF s7]) simp_all
  have s5: "1.1280370116027 \<le> taylor_tail 0.693147181 0 5 9"
    by (rule taylor_tail_ge [OF s6]) simp_all
  have s4: "1.1563791349312 \<le> taylor_tail 0.693147181 0 4 10"
    by (rule taylor_tail_ge [OF s5]) simp_all
  have s3: "1.2003852343861 \<le> taylor_tail 0.693147181 0 3 11"
    by (rule taylor_tail_ge [OF s4]) simp_all
  have s2: "1.2773478804429 \<le> taylor_tail 0.693147181 0 2 12"
    by (rule taylor_tail_ge [OF s3]) simp_all
  have s1: "1.4426950412426 \<le> taylor_tail 0.693147181 0 1 13"
    by (rule taylor_tail_ge [OF s2]) simp_all
  have s0: "2.0000000008799 \<le> taylor_tail 0.693147181 0 0 14"
    by (rule taylor_tail_ge [OF s1]) simp_all
  have "(2::real) < taylor_tail 0.693147181 0 0 14" using s0 by simp
  also have "\<dots> \<le> exp 0.693147181"
    by (rule taylor_tail_le_exp) simp
  finally have "exp (ln 2) < exp (0.693147181::real)" by simp
  then show ?thesis by (simp only: exp_less_cancel_iff)
qed

lemma ln_midrange_lower: "(0.9::real) < ln (2560 / 1023)"
proof -
  have s7: "taylor_tail 0.9 3 7 1 \<le> 1.3375"
    by (simp add: taylor_tail_one)
  have s6: "taylor_tail 0.9 3 6 2 \<le> 1.1719642857143"
    by (rule taylor_tail_le [OF s7]) simp_all
  have s5: "taylor_tail 0.9 3 5 3 \<le> 1.1757946428572"
    by (rule taylor_tail_le [OF s6]) simp_all
  have s4: "taylor_tail 0.9 3 4 4 \<le> 1.2116430357143"
    by (rule taylor_tail_le [OF s5]) simp_all
  have s3: "taylor_tail 0.9 3 3 5 \<le> 1.2726196830358"
    by (rule taylor_tail_le [OF s4]) simp_all
  have s2: "taylor_tail 0.9 3 2 6 \<le> 1.3817859049108"
    by (rule taylor_tail_le [OF s3]) simp_all
  have s1: "taylor_tail 0.9 3 1 7 \<le> 1.6218036572099"
    by (rule taylor_tail_le [OF s2]) simp_all
  have s0: "taylor_tail 0.9 3 0 8 \<le> 2.459623291489"
    by (rule taylor_tail_le [OF s1]) simp_all
  have "exp (0.9::real) \<le> taylor_tail 0.9 3 0 8"
    by (rule exp_le_taylor_tail) simp_all
  also have "\<dots> < 2560 / 1023" using s0 by simp
  finally have "exp (0.9::real) < exp (ln (2560 / 1023))" by simp
  then show ?thesis by (simp only: exp_less_cancel_iff)
qed

lemma exp_threshold_lower: "2.3655 < exp (0.861::real)"
proof -
  have s9: "1 \<le> taylor_tail 0.861 0 9 1"
    by (simp add: taylor_tail_one)
  have s8: "1.0956666666666 \<le> taylor_tail 0.861 0 8 2"
    by (rule taylor_tail_ge [OF s9]) simp_all
  have s7: "1.1179211249999 \<le> taylor_tail 0.861 0 7 3"
    by (rule taylor_tail_ge [OF s8]) simp_all
  have s6: "1.1375042983749 \<le> taylor_tail 0.861 0 6 4"
    by (rule taylor_tail_ge [OF s7]) simp_all
  have s5: "1.1632318668167 \<le> taylor_tail 0.861 0 5 5"
    by (rule taylor_tail_ge [OF s6]) simp_all
  have s4: "1.2003085274658 \<le> taylor_tail 0.861 0 4 6"
    by (rule taylor_tail_ge [OF s5]) simp_all
  have s3: "1.258366410537 \<le> taylor_tail 0.861 0 3 7"
    by (rule taylor_tail_ge [OF s4]) simp_all
  have s2: "1.3611511598241 \<le> taylor_tail 0.861 0 2 8"
    by (rule taylor_tail_ge [OF s3]) simp_all
  have s1: "1.5859755743042 \<le> taylor_tail 0.861 0 1 9"
    by (rule taylor_tail_ge [OF s2]) simp_all
  have s0: "2.3655249694759 \<le> taylor_tail 0.861 0 0 10"
    by (rule taylor_tail_ge [OF s1]) simp_all
  have "(2.3655::real) < taylor_tail 0.861 0 0 10" using s0 by simp
  also have "\<dots> \<le> exp 0.861"
    by (rule taylor_tail_le_exp) simp
  finally show ?thesis .
qed

lemma exp_margin_upper: "exp (0.861002::real) < 2.36553"
proof -
  have s12: "taylor_tail 0.861002 3 12 1 \<le> 1.1986927692308"
    by (simp add: taylor_tail_one)
  have s11: "taylor_tail 0.861002 3 11 2 \<le> 1.0860064059745"
    by (rule taylor_tail_le [OF s12]) simp_all
  have s10: "taylor_tail 0.861002 3 10 3 \<le> 1.085004880687"
    by (rule taylor_tail_le [OF s11]) simp_all
  have s9: "taylor_tail 0.861002 3 9 4 \<le> 1.0934191372282"
    by (rule taylor_tail_le [OF s10]) simp_all
  have s8: "taylor_tail 0.861002 3 8 5 \<le> 1.1046040071102"
    by (rule taylor_tail_le [OF s9]) simp_all
  have s7: "taylor_tail 0.861002 3 7 6 \<le> 1.1188832824163"
    by (rule taylor_tail_le [OF s8]) simp_all
  have s6: "taylor_tail 0.861002 3 6 7 \<le> 1.1376229634182"
    by (rule taylor_tail_le [OF s7]) simp_all
  have s5: "taylor_tail 0.861002 3 5 8 \<le> 1.1632492744582"
    by (rule taylor_tail_le [OF s6]) simp_all
  have s4: "taylor_tail 0.861002 3 4 9 \<le> 1.2003119903615"
    by (rule taylor_tail_le [OF s5]) simp_all
  have s3: "taylor_tail 0.861002 3 3 10 \<le> 1.2583677560814"
    by (rule taylor_tail_le [OF s4]) simp_all
  have s2: "taylor_tail 0.861002 3 2 11 \<le> 1.3611523849072"
    by (rule taylor_tail_le [OF s3]) simp_all
  have s1: "taylor_tail 0.861002 3 1 12 \<le> 1.585977462855"
    by (rule taylor_tail_le [OF s2]) simp_all
  have s0: "taylor_tail 0.861002 3 0 13 \<le> 2.3655297674731"
    by (rule taylor_tail_le [OF s1]) simp_all
  have "exp (0.861002::real) \<le> taylor_tail 0.861002 3 0 13"
    by (rule exp_le_taylor_tail) simp_all
  also have "\<dots> < 2.36553" using s0 by simp
  finally show ?thesis .
qed

lemma exp_below_counterexample: "exp (0.8610000000000001::real) < 5326688836174327 / 2 ^ 51"
proof -
  have s23: "taylor_tail 0.8610000000000001 3 23 1 \<le> 1.1076250000000000125"
    by (simp add: taylor_tail_one)
  have s22: "taylor_tail 0.8610000000000001 3 22 2 \<le> 1.04146370108695652702283"
    by (rule taylor_tail_le [OF s23]) simp_all
  have s21: "taylor_tail 0.8610000000000001 3 21 3 \<le> 1.04075910211981225790514"
    by (rule taylor_tail_le [OF s22]) simp_all
  have s20: "taylor_tail 0.8610000000000001 3 20 4 \<le> 1.04267112318691230753011"
    by (rule taylor_tail_le [OF s21]) simp_all
  have s19: "taylor_tail 0.8610000000000001 3 19 5 \<le> 1.04488699185319658005253"
    by (rule taylor_tail_le [OF s20]) simp_all
  have s18: "taylor_tail 0.8610000000000001 3 18 6 \<le> 1.04734987894661065052179"
    by (rule taylor_tail_le [OF s19]) simp_all
  have s17: "taylor_tail 0.8610000000000001 3 17 7 \<le> 1.05009823587627954860191"
    by (rule taylor_tail_le [OF s18]) simp_all
  have s16: "taylor_tail 0.8610000000000001 3 16 8 \<le> 1.05318438712291039978566"
    by (rule taylor_tail_le [OF s17]) simp_all
  have s15: "taylor_tail 0.8610000000000001 3 15 9 \<le> 1.05667448483205162247087"
    by (rule taylor_tail_le [OF s16]) simp_all
  have s14: "taylor_tail 0.8610000000000001 3 14 10 \<le> 1.06065311542935977017433"
    by (rule taylor_tail_le [OF s15]) simp_all
  have s13: "taylor_tail 0.8610000000000001 3 13 11 \<le> 1.06523016659890563344182"
    by (rule taylor_tail_le [OF s14]) simp_all
  have s12: "taylor_tail 0.8610000000000001 3 12 12 \<le> 1.07055101334166598899358"
    by (rule taylor_tail_le [OF s13]) simp_all
  have s11: "taylor_tail 0.8610000000000001 3 11 13 \<le> 1.07681203520726454363155"
    by (rule taylor_tail_le [OF s12]) simp_all
  have s10: "taylor_tail 0.8610000000000001 3 10 14 \<le> 1.08428501475576862543164"
    by (rule taylor_tail_le [OF s11]) simp_all
  have s9: "taylor_tail 0.8610000000000001 3 9 15 \<le> 1.09335693977047168949252"
    by (rule taylor_tail_le [OF s10]) simp_all
  have s8: "taylor_tail 0.8610000000000001 3 8 16 \<le> 1.1045978139047084704432"
    by (rule taylor_tail_le [OF s9]) simp_all
  have s7: "taylor_tail 0.8610000000000001 3 7 17 \<le> 1.11888233972149426293893"
    by (rule taylor_tail_le [OF s8]) simp_all
  have s6: "taylor_tail 0.8610000000000001 3 6 18 \<le> 1.13762252778574381032553"
    by (rule taylor_tail_le [OF s7]) simp_all
  have s5: "taylor_tail 0.8610000000000001 3 5 19 \<le> 1.16324883273725425574209"
    by (rule taylor_tail_le [OF s6]) simp_all
  have s4: "taylor_tail 0.8610000000000001 3 4 20 \<le> 1.20031144899735520610377"
    by (rule taylor_tail_le [OF s5]) simp_all
  have s3: "taylor_tail 0.8610000000000001 3 3 21 \<le> 1.25836703939668073812163"
    by (rule taylor_tail_le [OF s4]) simp_all
  have s2: "taylor_tail 0.8610000000000001 3 2 22 \<le> 1.36115134030684741378648"
    by (rule taylor_tail_le [OF s3]) simp_all
  have s1: "taylor_tail 0.8610000000000001 3 1 23 \<le> 1.58597565200209787969265"
    by (rule taylor_tail_le [OF s2]) simp_all
  have s0: "taylor_tail 0.8610000000000001 3 0 24 \<le> 2.36552503637380643301294"
    by (rule taylor_tail_le [OF s1]) simp_all
  have "exp (0.8610000000000001::real) \<le> taylor_tail 0.8610000000000001 3 0 24"
    by (rule exp_le_taylor_tail) simp_all
  also have "\<dots> < 5326688836174327 / 2 ^ 51" using s0 by simp
  finally show ?thesis .
qed

lemma exp_above_counterexample: "5326688836174327 / 2 ^ 51 < exp (0.86100000000000015::real)"
proof -
  have s23: "1 \<le> taylor_tail 0.86100000000000015 0 23 1"
    by (simp add: taylor_tail_one)
  have s22: "1.03743478260869565869565 \<le> taylor_tail 0.86100000000000015 0 22 2"
    by (rule taylor_tail_ge [OF s23]) simp_all
  have s21: "1.04060142490118577807964 \<le> taylor_tail 0.86100000000000015 0 21 3"
    by (rule taylor_tail_ge [OF s22]) simp_all
  have s20: "1.04266465842094862433413 \<le> taylor_tail 0.86100000000000015 0 20 4"
    by (rule taylor_tail_ge [OF s21]) simp_all
  have s19: "1.04488671354502184609756 \<le> taylor_tail 0.86100000000000015 0 19 5"
    by (rule taylor_tail_ge [OF s20]) simp_all
  have s18: "1.04734986633485599822226 \<le> taylor_tail 0.86100000000000015 0 18 6"
    by (rule taylor_tail_ge [OF s19]) simp_all
  have s17: "1.05009823527301728730954 \<le> taylor_tail 0.86100000000000015 0 17 7"
    by (rule taylor_tail_ge [OF s18]) simp_all
  have s16: "1.05318438709235694364048 \<le> taylor_tail 0.86100000000000015 0 16 8"
    by (rule taylor_tail_ge [OF s17]) simp_all
  have s15: "1.05667448483040746790325 \<le> taylor_tail 0.86100000000000015 0 15 9"
    by (rule taylor_tail_ge [OF s16]) simp_all
  have s14: "1.06065311542926539922439 \<le> taylor_tail 0.86100000000000015 0 14 10"
    by (rule taylor_tail_ge [OF s15]) simp_all
  have s13: "1.06523016659889983341644 \<le> taylor_tail 0.86100000000000015 0 13 11"
    by (rule taylor_tail_ge [OF s14]) simp_all
  have s12: "1.07055101334166560895046 \<le> taylor_tail 0.86100000000000015 0 12 12"
    by (rule taylor_tail_ge [OF s13]) simp_all
  have s11: "1.07681203520726452082408 \<le> taylor_tail 0.86100000000000015 0 11 13"
    by (rule taylor_tail_ge [OF s12]) simp_all
  have s10: "1.08428501475576862854103 \<le> taylor_tail 0.86100000000000015 0 10 14"
    by (rule taylor_tail_ge [OF s11]) simp_all
  have s9: "1.09335693977047169518165 \<le> taylor_tail 0.86100000000000015 0 9 15"
    by (rule taylor_tail_ge [OF s10]) simp_all
  have s8: "1.10459781390470847706166 \<le> taylor_tail 0.86100000000000015 0 8 16"
    by (rule taylor_tail_ge [OF s9]) simp_all
  have s7: "1.11888233972149427055497 \<le> taylor_tail 0.86100000000000015 0 7 17"
    by (rule taylor_tail_ge [OF s8]) simp_all
  have s6: "1.13762252778574381925431 \<le> taylor_tail 0.86100000000000015 0 6 18"
    by (rule taylor_tail_ge [OF s7]) simp_all
  have s5: "1.16324883273725426650355 \<le> taylor_tail 0.86100000000000015 0 5 19"
    by (rule taylor_tail_ge [OF s6]) simp_all
  have s4: "1.20031144899735521958937 \<le> taylor_tail 0.86100000000000015 0 4 20"
    by (rule taylor_tail_ge [OF s5]) simp_all
  have s3: "1.25836703939668075602829 \<le> taylor_tail 0.86100000000000015 0 3 21"
    by (rule taylor_tail_ge [OF s4]) simp_all
  have s2: "1.36115134030684743989847 \<le> taylor_tail 0.86100000000000015 0 2 22"
    by (rule taylor_tail_ge [OF s3]) simp_all
  have s1: "1.58597565200209792496264 \<le> taylor_tail 0.86100000000000015 0 1 23"
    by (rule taylor_tail_ge [OF s2]) simp_all
  have s0: "2.36552503637380655128918 \<le> taylor_tail 0.86100000000000015 0 0 24"
    by (rule taylor_tail_ge [OF s1]) simp_all
  have "(5326688836174327 / 2 ^ 51::real) < taylor_tail 0.86100000000000015 0 0 24" using s0 by simp
  also have "\<dots> \<le> exp 0.86100000000000015"
    by (rule taylor_tail_le_exp) simp
  finally show ?thesis .
qed

section \<open>Rounding to binary64\<close>

lemma round_half_even_close: "\<bar>of_int (round_half_even t) - t\<bar> \<le> 1 / 2"
  unfolding round_half_even_def Let_def by (auto simp: abs_le_iff)

lemma round_half_even_eq:
  assumes "of_int m - 1 / 2 < t" "t < of_int m + 1 / 2"
  shows "round_half_even t = m"
proof (cases "of_int m \<le> t")
  case True
  with assms have "\<lfloor>t\<rfloor> = m" by (intro floor_unique) linarith+
  with assms show ?thesis by (simp add: round_half_even_def)
next
  case False
  with assms have "\<lfloor>t\<rfloor> = m - 1" by (intro floor_unique) simp_all
  with assms show ?thesis by (simp add: round_half_even_def Let_def)
qed

lemma floor_log2_eq:
  assumes "2 powr of_int e \<le> x" "x < 2 powr (of_int e + 1)"
  shows "\<lfloor>log 2 x\<rfloor> = e"
proof -
  have "(0::real) < 2 powr of_int e" by simp
  with assms(1) have pos: "0 < x" by linarith
  have "of_int e \<le> log 2 x" using assms(1) pos by (simp add: le_log_iff)
  moreover have "log 2 x < of_int e + 1" using assms(2) pos by (simp add: log_less_iff)
  ultimately show ?thesis by (intro floor_unique) simp_all
qed

text \<open>The value of \<open>binary64 x\<close> once the binade of \<open>x\<close> is known.\<close>

lemma binary64_unfold:
  assumes q: "q = 2 powr (of_int e - 52)" and e: "- 1022 \<le> e"
    and lo: "2 ^ 52 * q \<le> \<bar>x\<bar>" and hi: "\<bar>x\<bar> < 2 ^ 53 * q"
  shows "binary64 x =
    (if 2 ^ 1024 \<le> \<bar>of_int (round_half_even (x / q)) * q\<bar>
     then (if 0 < x then PInf else NInf) else Fin (of_int (round_half_even (x / q)) * q))"
proof -
  have qpos: "0 < q" by (simp add: q)
  have "2 ^ 52 * q = 2 powr of_int e"
    unfolding q by (simp add: powr_diff)
  moreover have "2 ^ 53 * q = 2 powr (of_int e + 1)"
    unfolding q by (simp add: powr_diff powr_add)
  ultimately have "\<lfloor>log 2 \<bar>x\<bar>\<rfloor> = e"
    using lo hi by (intro floor_log2_eq) simp_all
  moreover have "0 < 2 ^ 52 * q" using qpos by simp
  then have "x \<noteq> 0" using lo by auto
  ultimately show ?thesis
    using e by (simp add: binary64_def Let_def q max_def)
qed

text \<open>How a concrete value is rounded: the binade \<open>e\<close> and the significand \<open>m\<close> given.\<close>

lemma binary64_eval:
  assumes q: "q = 2 powr (of_int e - 52)" and e: "- 1022 \<le> e"
    and lo: "2 ^ 52 * q \<le> \<bar>x\<bar>" and hi: "\<bar>x\<bar> < 2 ^ 53 * q"
    and m: "of_int m - 1 / 2 < x / q" "x / q < of_int m + 1 / 2"
    and fin: "\<bar>of_int m * q\<bar> < 2 ^ 1024"
  shows "binary64 x = Fin (of_int m * q)"
proof -
  have "round_half_even (x / q) = m" using m by (rule round_half_even_eq)
  then show ?thesis
    using binary64_unfold [OF q e lo hi] fin by simp
qed

text \<open>In the normal range a rounding moves a value by at most \<open>2 ^ -53\<close> of itself.\<close>

lemma binary64_error:
  assumes lo: "1 / 2 ^ 1022 \<le> \<bar>x\<bar>" and hi: "\<bar>x\<bar> < 2 ^ 1023"
  shows "\<exists>y. binary64 x = Fin y \<and> \<bar>y - x\<bar> \<le> \<bar>x\<bar> / 2 ^ 53"
proof -
  define e where "e = \<lfloor>log 2 \<bar>x\<bar>\<rfloor>"
  define q :: real where "q = 2 powr (of_int e - 52)"
  define m where "m = round_half_even (x / q)"
  have "(0::real) < 1 / 2 ^ 1022" by simp
  with lo have xpos: "0 < \<bar>x\<bar>" by linarith
  have qpos: "0 < q" by (simp add: q_def)
  have "2 powr (- 1022) \<le> \<bar>x\<bar>" using lo by (simp add: powr_minus divide_simps)
  then have "- 1022 \<le> log 2 \<bar>x\<bar>" using xpos by (simp add: le_log_iff)
  then have e_lo: "- 1022 \<le> e" unfolding e_def by (simp add: le_floor_iff)
  have "of_int e \<le> log 2 \<bar>x\<bar>" unfolding e_def by simp
  then have x_lo: "2 powr of_int e \<le> \<bar>x\<bar>" using xpos by (simp add: le_log_iff)
  have "log 2 \<bar>x\<bar> < of_int e + 1" unfolding e_def by linarith
  then have x_hi: "\<bar>x\<bar> < 2 powr (of_int e + 1)" using xpos by (simp add: log_less_iff)
  have q52: "2 powr of_int e = 2 ^ 52 * q" unfolding q_def by (simp add: powr_diff)
  have q53: "2 powr (of_int e + 1) = 2 ^ 53 * q" unfolding q_def by (simp add: powr_diff powr_add)
  have close: "\<bar>of_int m - x / q\<bar> \<le> 1 / 2"
    unfolding m_def by (rule round_half_even_close)
  have "of_int m * q - x = (of_int m - x / q) * q"
    using qpos by (simp add: field_simps)
  then have "\<bar>of_int m * q - x\<bar> = \<bar>of_int m - x / q\<bar> * q"
    using qpos by (simp add: abs_mult)
  also have "\<dots> \<le> 1 / 2 * q" using close qpos by (intro mult_right_mono) simp_all
  also have "\<dots> = 2 powr of_int e / 2 ^ 53" unfolding q52 by simp
  also have "\<dots> \<le> \<bar>x\<bar> / 2 ^ 53" using x_lo by (simp add: divide_right_mono)
  finally have err: "\<bar>of_int m * q - x\<bar> \<le> \<bar>x\<bar> / 2 ^ 53" .
  have "\<bar>x\<bar> / 2 ^ 53 \<le> \<bar>x\<bar> / 1" by (intro divide_left_mono) simp_all
  then have "\<bar>of_int m * q\<bar> \<le> \<bar>x\<bar> + \<bar>x\<bar>" using err by linarith
  also have "\<dots> < 2 ^ 1023 + 2 ^ 1023" using hi by (intro add_strict_mono)
  also have "\<dots> = (2::real) ^ 1024" by simp
  finally have fin: "\<not> 2 ^ 1024 \<le> \<bar>of_int m * q\<bar>" by simp
  have "binary64 x = Fin (of_int m * q)"
    using binary64_unfold [OF q_def e_lo] x_lo x_hi fin unfolding q52 q53 m_def by simp
  with err show ?thesis by blast
qed

text \<open>A magnitude of \<open>2 ^ 1024\<close> or more has no finite float near it.\<close>

lemma binary64_overflow:
  assumes "2 ^ 1024 \<le> \<bar>x\<bar>"
  shows "binary64 x = (if 0 < x then PInf else NInf)"
proof -
  define e where "e = \<lfloor>log 2 \<bar>x\<bar>\<rfloor>"
  define q :: real where "q = 2 powr (of_int e - 52)"
  define m where "m = round_half_even (x / q)"
  have "(0::real) < 2 ^ 1024" by simp
  with assms have xpos: "0 < \<bar>x\<bar>" by linarith
  have qpos: "0 < q" by (simp add: q_def)
  have "2 powr 1024 \<le> \<bar>x\<bar>" using assms by simp
  then have "1024 \<le> log 2 \<bar>x\<bar>" using xpos by (simp add: le_log_iff)
  then have e_lo: "1024 \<le> e" unfolding e_def by (simp add: le_floor_iff)
  have "of_int e \<le> log 2 \<bar>x\<bar>" unfolding e_def by simp
  then have x_lo: "2 powr of_int e \<le> \<bar>x\<bar>" using xpos by (simp add: le_log_iff)
  have q52: "2 powr of_int e = 2 ^ 52 * q" unfolding q_def by (simp add: powr_diff)
  have close: "\<bar>of_int m - x / q\<bar> \<le> 1 / 2"
    unfolding m_def by (rule round_half_even_close)
  have "2 ^ 52 \<le> \<bar>x\<bar> / q" using x_lo qpos unfolding q52 by (simp add: field_simps)
  also have "\<dots> = \<bar>x / q\<bar>" using qpos by simp
  finally have "2 ^ 52 - 1 / 2 \<le> \<bar>real_of_int m\<bar>" using close by linarith
  then have "real_of_int (2 ^ 52 - 1) < real_of_int \<bar>m\<bar>" by simp
  then have "2 ^ 52 - 1 < \<bar>m\<bar>" by (rule of_int_less_iff [THEN iffD1])
  then have "2 ^ 52 \<le> \<bar>m\<bar>" by linarith
  then have "real_of_int (2 ^ 52) \<le> real_of_int \<bar>m\<bar>" by (simp only: of_int_le_iff)
  then have "2 ^ 52 \<le> \<bar>real_of_int m\<bar>" by simp
  then have "2 ^ 52 * q \<le> \<bar>real_of_int m\<bar> * q" using qpos by (intro mult_right_mono) simp_all
  then have "2 powr of_int e \<le> \<bar>of_int m * q\<bar>" using qpos unfolding q52 by (simp add: abs_mult)
  moreover have "(2::real) powr 1024 \<le> 2 powr of_int e" using e_lo by (intro powr_mono) simp_all
  ultimately have big: "2 ^ 1024 \<le> \<bar>of_int m * q\<bar>" by simp
  have "log 2 \<bar>x\<bar> < of_int e + 1" unfolding e_def by linarith
  then have x_hi: "\<bar>x\<bar> < 2 powr (of_int e + 1)" using xpos by (simp add: log_less_iff)
  have q53: "2 powr (of_int e + 1) = 2 ^ 53 * q" unfolding q_def by (simp add: powr_diff powr_add)
  have "- 1022 \<le> e" using e_lo by simp
  from binary64_unfold [OF q_def this] x_lo x_hi big show ?thesis
    unfolding q52 q53 m_def by simp
qed

text \<open>The rounding as a relative perturbation, and as an enclosure.\<close>

lemma binary64_rel:
  assumes "1 / 2 ^ 1022 \<le> \<bar>x\<bar>" "\<bar>x\<bar> < 2 ^ 1023"
  obtains d where "binary64 x = Fin (x * (1 + d))" "\<bar>d\<bar> \<le> 1 / 2 ^ 53"
proof -
  obtain y where y: "binary64 x = Fin y" "\<bar>y - x\<bar> \<le> \<bar>x\<bar> / 2 ^ 53"
    using binary64_error [OF assms] by blast
  have "(0::real) < 1 / 2 ^ 1022" by simp
  with assms(1) have xpos: "0 < \<bar>x\<bar>" by linarith
  then have x: "x \<noteq> 0" by simp
  define d where "d = (y - x) / x"
  have yd: "y = x * (1 + d)" using x by (simp add: d_def field_simps)
  have "\<bar>d\<bar> = \<bar>y - x\<bar> / \<bar>x\<bar>" by (simp add: d_def)
  also have "\<dots> \<le> (\<bar>x\<bar> / 2 ^ 53) / \<bar>x\<bar>"
    using y(2) xpos by (intro divide_right_mono) simp_all
  also have "\<dots> = 1 / 2 ^ 53" using x by simp
  finally have "\<bar>d\<bar> \<le> 1 / 2 ^ 53" .
  with yd show ?thesis using y(1) that by blast
qed

lemma binary64_pos_between:
  assumes "a \<le> x" "x \<le> b" "1 / 2 ^ 1022 \<le> a" "b < 2 ^ 1023"
  obtains y where "binary64 x = Fin y" "a * (1 - 1 / 2 ^ 53) \<le> y" "y \<le> b * (1 + 1 / 2 ^ 53)"
proof -
  have "(0::real) < 1 / 2 ^ 1022" by simp
  with assms have xpos: "0 < x" by linarith
  then have "1 / 2 ^ 1022 \<le> \<bar>x\<bar>" "\<bar>x\<bar> < 2 ^ 1023" using assms by simp_all
  then obtain d where d: "binary64 x = Fin (x * (1 + d))" "\<bar>d\<bar> \<le> 1 / 2 ^ 53"
    by (rule binary64_rel)
  have "0 \<le> 1 - 1 / (2::real) ^ 53" by simp
  then have "a * (1 - 1 / 2 ^ 53) \<le> x * (1 - 1 / 2 ^ 53)"
    using assms(1) by (rule mult_right_mono [rotated])
  also have "\<dots> \<le> x * (1 + d)" using d(2) xpos by (intro mult_left_mono) (simp_all add: abs_le_iff)
  finally have lo: "a * (1 - 1 / 2 ^ 53) \<le> x * (1 + d)" .
  have "x * (1 + d) \<le> x * (1 + 1 / 2 ^ 53)"
    using d(2) xpos by (intro mult_left_mono) (simp_all add: abs_le_iff)
  also have "\<dots> \<le> b * (1 + 1 / 2 ^ 53)" using assms(2) by (intro mult_right_mono) simp_all
  finally have "x * (1 + d) \<le> b * (1 + 1 / 2 ^ 53)" .
  with lo d(1) that show ?thesis by blast
qed

lemma binary64_neg_between:
  assumes "a \<le> x" "x \<le> b" "- (2 ^ 1023) < a" "b \<le> - (1 / 2 ^ 1022)"
  obtains y where "binary64 x = Fin y" "a * (1 + 1 / 2 ^ 53) \<le> y" "y \<le> b * (1 - 1 / 2 ^ 53)"
proof -
  have "(0::real) < 1 / 2 ^ 1022" by simp
  with assms have xneg: "x < 0" by linarith
  then have "1 / 2 ^ 1022 \<le> \<bar>x\<bar>" "\<bar>x\<bar> < 2 ^ 1023" using assms by simp_all
  then obtain d where d: "binary64 x = Fin (x * (1 + d))" "\<bar>d\<bar> \<le> 1 / 2 ^ 53"
    by (rule binary64_rel)
  have "a * (1 + 1 / 2 ^ 53) \<le> x * (1 + 1 / 2 ^ 53)"
    using assms(1) by (intro mult_right_mono) simp_all
  also have "\<dots> \<le> x * (1 + d)"
    using d(2) xneg by (intro mult_left_mono_neg) (simp_all add: abs_le_iff)
  finally have lo: "a * (1 + 1 / 2 ^ 53) \<le> x * (1 + d)" .
  have "x * (1 + d) \<le> x * (1 - 1 / 2 ^ 53)"
    using d(2) xneg by (intro mult_left_mono_neg) (simp_all add: abs_le_iff)
  also have "\<dots> \<le> b * (1 - 1 / 2 ^ 53)" using assms(2) by (intro mult_right_mono) simp_all
  finally have "x * (1 + d) \<le> b * (1 - 1 / 2 ^ 53)" .
  with lo d(1) that show ?thesis by blast
qed

text \<open>Zero is a float, and an \<^verbatim>\<open>int\<close> below \<open>2 ^ 1023\<close> in magnitude rounds to a float.\<close>

lemma binary64_zero: "binary64 0 = Fin 0"
  by (simp add: binary64_def)

lemma binary64_of_int_finite:
  assumes "\<bar>i\<bar> < 2 ^ 1023"
  shows "\<exists>y. binary64 (of_int i) = Fin y"
proof (cases "i = 0")
  case True
  then show ?thesis by (simp add: binary64_zero)
next
  case False
  then have "1 \<le> \<bar>i\<bar>" by linarith
  then have "real_of_int 1 \<le> real_of_int \<bar>i\<bar>" by (simp only: of_int_le_iff)
  then have "1 \<le> \<bar>real_of_int i\<bar>" by simp
  moreover have "1 / 2 ^ 1022 \<le> (1::real)" by simp
  ultimately have lo: "1 / 2 ^ 1022 \<le> \<bar>real_of_int i\<bar>" by linarith
  have "real_of_int \<bar>i\<bar> < real_of_int (2 ^ 1023)" using assms by (simp only: of_int_less_iff)
  then have hi: "\<bar>real_of_int i\<bar> < 2 ^ 1023" by simp
  show ?thesis using binary64_error [OF lo hi] by blast
qed

text \<open>The roundings that the concrete scenarios need.\<close>

lemma binary64_calibration_offset: "binary64 (861 / 1000) = Fin (3877599279165997 / 4503599627370496)"
proof -
  have "binary64 (861 / 1000) = Fin (of_int 7755198558331994 * (1 / 2 ^ 53))"
    by (rule binary64_eval [where e = "- 1"]) (simp_all add: powr_minus divide_simps)
  then show ?thesis by simp
qed

lemma binary64_calibration_slope: "binary64 (117 / 100000) = Fin (1348918160390011 / 1152921504606846976)"
proof -
  have "binary64 (117 / 100000) = Fin (of_int 5395672641560044 * (1 / 2 ^ 62))"
    by (rule binary64_eval [where e = "- 10"]) (simp_all add: powr_minus divide_simps)
  then show ?thesis by simp
qed

lemma binary64_left: "binary64 (992665415466495232 / 1348918160390011) = Fin (6473022300958195 / 8796093022208)"
proof -
  have "binary64 (992665415466495232 / 1348918160390011) = Fin (of_int 6473022300958195 * (1 / 2 ^ 43))"
    by (rule binary64_eval [where e = "9"]) (simp_all add: powr_minus divide_simps)
  then show ?thesis by simp
qed

lemma binary64_right: "binary64 (1152921504606846976 / 1348918160390011) = Fin (7518028224109401 / 8796093022208)"
proof -
  have "binary64 (1152921504606846976 / 1348918160390011) = Fin (of_int 7518028224109401 * (1 / 2 ^ 43))"
    by (rule binary64_eval [where e = "9"]) (simp_all add: powr_minus divide_simps)
  then show ?thesis by simp
qed

lemma binary64_right_times_log: "binary64 (58303801645112475249706958584995 / 79228162514264337593543950336) = Fin (6473022300958195 / 8796093022208)"
proof -
  have "binary64 (58303801645112475249706958584995 / 79228162514264337593543950336) = Fin (of_int 6473022300958195 * (1 / 2 ^ 43))"
    by (rule binary64_eval [where e = "9"]) (simp_all add: powr_minus divide_simps)
  then show ?thesis by simp
qed

lemma binary64_recip_49: "binary64 (1 / 49) = Fin (5882252574524729 / 288230376151711744)"
proof -
  have "binary64 (1 / 49) = Fin (of_int 5882252574524729 * (1 / 2 ^ 58))"
    by (rule binary64_eval [where e = "- 6"]) (simp_all add: powr_minus divide_simps)
  then show ?thesis by simp
qed

lemma binary64_recip_recip_49: "binary64 (288230376151711744 / 5882252574524729) = Fin (6896136929411073 / 140737488355328)"
proof -
  have "binary64 (288230376151711744 / 5882252574524729) = Fin (of_int 6896136929411073 * (1 / 2 ^ 47))"
    by (rule binary64_eval [where e = "5"]) (simp_all add: powr_minus divide_simps)
  then show ?thesis by simp
qed

lemma binary64_milli_21: "binary64 (605283789918594625 / 288230376151711744) = Fin (4728779608739021 / 2251799813685248)"
proof -
  have "binary64 (605283789918594625 / 288230376151711744) = Fin (of_int 4728779608739021 * (1 / 2 ^ 51))"
    by (rule binary64_eval [where e = "1"]) (simp_all add: powr_minus divide_simps)
  then show ?thesis by simp
qed

lemma binary64_kilo_21: "binary64 (4728779608739021 / 2251799813685248000) = Fin (2421135159674379 / 1152921504606846976)"
proof -
  have "binary64 (4728779608739021 / 2251799813685248000) = Fin (of_int 4842270319348758 * (1 / 2 ^ 61))"
    by (rule binary64_eval [where e = "- 9"]) (simp_all add: powr_minus divide_simps)
  then show ?thesis by simp
qed

lemma binary64_1000: "binary64 (1000) = Fin (1000)"
proof -
  have "binary64 (1000) = Fin (of_int 8796093022208000 * (1 / 2 ^ 43))"
    by (rule binary64_eval [where e = "9"]) (simp_all add: powr_minus divide_simps)
  then show ?thesis by simp
qed

lemma binary64_1: "binary64 (1) = Fin (1)"
proof -
  have "binary64 (1) = Fin (of_int 4503599627370496 * (1 / 2 ^ 52))"
    by (rule binary64_eval [where e = "0"]) (simp_all add: powr_minus divide_simps)
  then show ?thesis by simp
qed

lemma binary64_micro: "binary64 (1 / 1000000) = Fin (4722366482869645 / 4722366482869645213696)"
proof -
  have "binary64 (1 / 1000000) = Fin (of_int 4722366482869645 * (1 / 2 ^ 72))"
    by (rule binary64_eval [where e = "- 20"]) (simp_all add: powr_minus divide_simps)
  then show ?thesis by simp
qed

lemma binary64_recip_512: "binary64 (1 / 512) = Fin (1 / 512)"
proof -
  have "binary64 (1 / 512) = Fin (of_int 4503599627370496 * (1 / 2 ^ 61))"
    by (rule binary64_eval [where e = "- 9"]) (simp_all add: powr_minus divide_simps)
  then show ?thesis by simp
qed

text \<open>
  Two and three roundings in a row, and a rounding undone by a division, stay within
  \<open>2 ^ -51\<close> of the exact value, relatively.
\<close>

lemma binary64_factor:
  assumes "1 / 2 ^ 1022 \<le> \<bar>x\<bar>" "\<bar>x\<bar> < 2 ^ 1023"
  obtains a where "binary64 x = Fin (x * a)" "1 - 1 / 2 ^ 53 \<le> a" "a \<le> 1 + 1 / 2 ^ 53"
proof -
  obtain d where d: "binary64 x = Fin (x * (1 + d))" "\<bar>d\<bar> \<le> 1 / 2 ^ 53"
    using assms by (rule binary64_rel)
  from d(2) have "1 - 1 / 2 ^ 53 \<le> 1 + d" "1 + d \<le> 1 + 1 / 2 ^ 53"
    by (simp_all add: abs_le_iff)
  with d(1) that show ?thesis by blast
qed

lemma factor_crude:
  fixes a :: real
  assumes "1 - 1 / 2 ^ 53 \<le> a" "a \<le> 1 + 1 / 2 ^ 53"
  shows "1 / 2 \<le> (a::real)" "a \<le> 2" "1 / 2 \<le> 1 / a" "1 / a \<le> 2"
proof -
  show a: "1 / 2 \<le> a" using assms(1) by simp
  show "a \<le> 2" using assms(2) by simp
  have pos: "0 < a" using a by simp
  show "1 / 2 \<le> 1 / a" using assms(2) pos by (simp add: field_simps)
  show "1 / a \<le> 2" using a pos by (simp add: field_simps)
qed

lemma scaled_range:
  fixes x a lo hi :: real
  assumes "lo \<le> \<bar>x\<bar>" "\<bar>x\<bar> \<le> hi" "1 / 2 \<le> a" "a \<le> 2"
  shows "lo / 2 \<le> \<bar>x * a\<bar>" "\<bar>x * a\<bar> \<le> hi * 2"
proof -
  have e: "\<bar>x * a\<bar> = \<bar>x\<bar> * a" using assms(3) by (simp add: abs_mult)
  have "\<bar>x\<bar> * (1 / 2) \<le> \<bar>x\<bar> * a" using assms(3) by (intro mult_left_mono) simp_all
  then show "lo / 2 \<le> \<bar>x * a\<bar>" using assms(1) unfolding e by simp
  have "\<bar>x\<bar> * a \<le> \<bar>x\<bar> * 2" using assms(4) by (intro mult_left_mono) simp_all
  then show "\<bar>x * a\<bar> \<le> hi * 2" using assms(2) unfolding e by simp
qed

lemma two_factors:
  fixes a b :: real
  assumes "1 - 1 / 2 ^ 53 \<le> a" "a \<le> 1 + 1 / 2 ^ 53"
    and "1 - 1 / 2 ^ 53 \<le> b" "b \<le> 1 + 1 / 2 ^ 53"
  shows "1 - 5 / 2 ^ 54 \<le> a * b" "a * b \<le> 1 + 5 / 2 ^ 54"
proof -
  have "(1 - 1 / 2 ^ 53) * (1 - 1 / 2 ^ 53) \<le> a * b"
    using assms by (intro mult_mono) simp_all
  moreover have "1 - 5 / 2 ^ 54 \<le> (1 - 1 / 2 ^ 53) * (1 - 1 / 2 ^ 53 :: real)"
    by simp
  ultimately show "1 - 5 / 2 ^ 54 \<le> a * b" by linarith
  have "0 \<le> a" using assms(1) by simp
  then have "a * b \<le> (1 + 1 / 2 ^ 53) * (1 + 1 / 2 ^ 53)"
    using assms by (intro mult_mono) simp_all
  moreover have "(1 + 1 / 2 ^ 53) * (1 + 1 / 2 ^ 53) \<le> 1 + 5 / (2 ^ 54 :: real)"
    by simp
  ultimately show "a * b \<le> 1 + 5 / 2 ^ 54" by linarith
qed

lemma three_factors:
  fixes a b c :: real
  assumes "1 - 1 / 2 ^ 53 \<le> a" "a \<le> 1 + 1 / 2 ^ 53"
    and "1 - 1 / 2 ^ 53 \<le> b" "b \<le> 1 + 1 / 2 ^ 53"
    and "1 - 1 / 2 ^ 53 \<le> c" "c \<le> 1 + 1 / 2 ^ 53"
  shows "1 - 1 / 2 ^ 51 \<le> a * b * c" "a * b * c \<le> 1 + 1 / 2 ^ 51"
proof -
  note ab = two_factors [OF assms(1-4)]
  have "(1 - 5 / 2 ^ 54) * (1 - 1 / 2 ^ 53) \<le> a * b * c"
    using ab assms by (intro mult_mono) simp_all
  moreover have "1 - 1 / 2 ^ 51 \<le> (1 - 5 / 2 ^ 54) * (1 - 1 / 2 ^ 53 :: real)"
    by simp
  ultimately show "1 - 1 / 2 ^ 51 \<le> a * b * c" by linarith
  have "0 \<le> a * b" using ab(1) by simp
  then have "a * b * c \<le> (1 + 5 / 2 ^ 54) * (1 + 1 / 2 ^ 53)"
    using ab assms by (intro mult_mono) simp_all
  moreover have "(1 + 5 / 2 ^ 54) * (1 + 1 / 2 ^ 53) \<le> 1 + 1 / (2 ^ 51 :: real)"
    by simp
  ultimately show "a * b * c \<le> 1 + 1 / 2 ^ 51" by linarith
qed

lemma factor_quotient:
  fixes a b :: real
  assumes "1 - 1 / 2 ^ 53 \<le> a" "a \<le> 1 + 1 / 2 ^ 53"
    and "1 - 1 / 2 ^ 53 \<le> b" "b \<le> 1 + 1 / 2 ^ 53"
  shows "1 - 1 / 2 ^ 51 \<le> b / a" "b / a \<le> 1 + 1 / 2 ^ 51"
proof -
  have apos: "0 < a" using assms(1) by simp
  have "(1 - 1 / 2 ^ 53) / (1 + 1 / 2 ^ 53) \<le> b / a"
    using assms apos by (intro frac_le) simp_all
  moreover have "1 - 1 / 2 ^ 51 \<le> (1 - 1 / 2 ^ 53) / (1 + 1 / 2 ^ 53 :: real)"
    by simp
  ultimately show "1 - 1 / 2 ^ 51 \<le> b / a" by linarith
  have "0 \<le> b" using assms(3) by simp
  then have "b / a \<le> (1 + 1 / 2 ^ 53) / (1 - 1 / 2 ^ 53)"
    using assms by (intro frac_le) simp_all
  moreover have "(1 + 1 / 2 ^ 53) / (1 - 1 / 2 ^ 53) \<le> 1 + 1 / (2 ^ 51 :: real)"
    by simp
  ultimately show "b / a \<le> 1 + 1 / 2 ^ 51" by linarith
qed

lemma relative_error:
  fixes x r :: real
  assumes "1 - 1 / 2 ^ 51 \<le> r" "r \<le> 1 + 1 / 2 ^ 51"
  shows "\<bar>x * r - x\<bar> \<le> \<bar>x\<bar> / 2 ^ 51"
proof -
  have "x * r - x = x * (r - 1)" by (simp add: algebra_simps)
  then have "\<bar>x * r - x\<bar> = \<bar>x\<bar> * \<bar>r - 1\<bar>" by (simp add: abs_mult)
  also have "\<dots> \<le> \<bar>x\<bar> * (1 / 2 ^ 51)"
  proof (rule mult_left_mono)
    show "\<bar>r - 1\<bar> \<le> 1 / 2 ^ 51" using assms unfolding abs_le_iff by linarith
  qed simp
  finally show ?thesis by simp
qed

text \<open>The reciprocal taken twice.\<close>

lemma reciprocal_twice:
  assumes lo: "1 / 2 ^ 1021 \<le> \<bar>s\<bar>" and hi: "\<bar>s\<bar> \<le> 2 ^ 1021"
  shows "\<exists>z. float_truediv_in binary64 (Fin 1) (float_truediv_in binary64 (Fin 1) (Fin s)) =
           Fin z \<and> \<bar>z - s\<bar> \<le> \<bar>s\<bar> / 2 ^ 51"
proof -
  have "(0::real) < 1 / 2 ^ 1021" by simp
  with lo have spos: "0 < \<bar>s\<bar>" by linarith
  then have s: "s \<noteq> 0" by simp
  have "\<bar>1 / s\<bar> = 1 / \<bar>s\<bar>" by simp
  moreover have "1 / \<bar>s\<bar> \<le> 1 / (1 / 2 ^ 1021)"
    using lo by (intro divide_left_mono) simp_all
  moreover have "1 / 2 ^ 1021 \<le> 1 / \<bar>s\<bar>"
    using hi spos by (intro divide_left_mono) simp_all
  ultimately have r1: "1 / 2 ^ 1021 \<le> \<bar>1 / s\<bar>" "\<bar>1 / s\<bar> \<le> 2 ^ 1021"
    by simp_all
  have "1 / 2 ^ 1022 \<le> 1 / (2 ^ 1021 :: real)" "(2 ^ 1021 :: real) < 2 ^ 1023"
    by simp_all
  with r1 have "1 / 2 ^ 1022 \<le> \<bar>1 / s\<bar>" "\<bar>1 / s\<bar> < 2 ^ 1023"
    by linarith+
  then obtain a where a: "binary64 (1 / s) = Fin (1 / s * a)"
      "1 - 1 / 2 ^ 53 \<le> a" "a \<le> 1 + 1 / 2 ^ 53"
    by (rule binary64_factor)
  note ac = factor_crude [OF a(2,3)]
  have apos: "0 < a" using ac(1) by simp
  have y: "1 / s * a \<noteq> 0" using s apos by simp
  have "1 / 2 ^ 1021 / 2 \<le> \<bar>s * (1 / a)\<bar>" "\<bar>s * (1 / a)\<bar> \<le> 2 ^ 1021 * 2"
    using scaled_range [OF lo hi ac(3,4)] by simp_all
  moreover have "1 / 2 ^ 1022 \<le> 1 / 2 ^ 1021 / (2::real)" "(2 ^ 1021 :: real) * 2 < 2 ^ 1023"
    by simp_all
  ultimately have "1 / 2 ^ 1022 \<le> \<bar>s * (1 / a)\<bar>" "\<bar>s * (1 / a)\<bar> < 2 ^ 1023"
    by linarith+
  then have "1 / 2 ^ 1022 \<le> \<bar>s / a\<bar>" "\<bar>s / a\<bar> < 2 ^ 1023"
    by simp_all
  then obtain b where b: "binary64 (s / a) = Fin (s / a * b)"
      "1 - 1 / 2 ^ 53 \<le> b" "b \<le> 1 + 1 / 2 ^ 53"
    by (rule binary64_factor)
  have "float_truediv_in binary64 (Fin 1) (float_truediv_in binary64 (Fin 1) (Fin s)) =
      Fin (s * (b / a))"
    using s y by (simp add: a(1) b(1))
  moreover have "\<bar>s * (b / a) - s\<bar> \<le> \<bar>s\<bar> / 2 ^ 51"
    by (rule relative_error [OF factor_quotient [OF a(2,3) b(2,3)]])
  ultimately show ?thesis by blast
qed

text \<open>A multiplication by 1000 followed by a division by 1000.\<close>

lemma milli_then_kilo:
  assumes lo: "1 / 2 ^ 1000 \<le> \<bar>x\<bar>" and hi: "\<bar>x\<bar> \<le> 2 ^ 1000"
  obtains a b where
    "float_truediv_in binary64 (float_mul_in binary64 (Fin x) (Fin 1000)) (Fin 1000) =
       Fin (x * (a * b))"
    "1 - 1 / 2 ^ 53 \<le> a" "a \<le> 1 + 1 / 2 ^ 53" "1 - 1 / 2 ^ 53 \<le> b" "b \<le> 1 + 1 / 2 ^ 53"
proof -
  have "\<bar>x * 1000\<bar> = \<bar>x\<bar> * 1000" by (simp add: abs_mult)
  moreover have "1 / 2 ^ 1022 \<le> 1 / 2 ^ 1000 * (1000::real)" "(2 ^ 1000 :: real) * 1000 < 2 ^ 1023"
    by simp_all
  ultimately have "1 / 2 ^ 1022 \<le> \<bar>x * 1000\<bar>" "\<bar>x * 1000\<bar> < 2 ^ 1023"
    using lo hi by linarith+
  then obtain a where a: "binary64 (x * 1000) = Fin (x * 1000 * a)"
      "1 - 1 / 2 ^ 53 \<le> a" "a \<le> 1 + 1 / 2 ^ 53"
    by (rule binary64_factor)
  note ac = factor_crude [OF a(2,3)]
  have "1 / 2 ^ 1000 / 2 \<le> \<bar>x * a\<bar>" "\<bar>x * a\<bar> \<le> 2 ^ 1000 * 2"
    using scaled_range [OF lo hi ac(1,2)] by simp_all
  moreover have "1 / 2 ^ 1022 \<le> 1 / 2 ^ 1000 / (2::real)" "(2 ^ 1000 :: real) * 2 < 2 ^ 1023"
    by simp_all
  ultimately have "1 / 2 ^ 1022 \<le> \<bar>x * a\<bar>" "\<bar>x * a\<bar> < 2 ^ 1023"
    by linarith+
  then obtain b where b: "binary64 (x * a) = Fin (x * a * b)"
      "1 - 1 / 2 ^ 53 \<le> b" "b \<le> 1 + 1 / 2 ^ 53"
    by (rule binary64_factor)
  have "float_truediv_in binary64 (float_mul_in binary64 (Fin x) (Fin 1000)) (Fin 1000) =
      Fin (x * (a * b))"
    by (simp add: a(1) b(1) mult.assoc)
  with a(2,3) b(2,3) that show ?thesis by blast
qed

section \<open>The functions in exact arithmetic: facts\<close>

lemmas exact_arithmetic =
  exact_def float_truediv_def
  bioemo_readings_to_volts_def bioemo_readings_to_volts_in_def
  bioemo_volts_to_ohms_def bioemo_volts_to_ohms_in_def
  ohms_to_siemens_def ohms_to_siemens_in_def
  siemens_to_ohms_def siemens_to_ohms_in_def
  bioemo_volts_to_siemens_def bioemo_volts_to_siemens_in_def
  bioemo_readings_to_siemens_def bioemo_readings_to_siemens_in_def
  unit_to_kilounit_def unit_to_kilounit_in_def
  unit_to_megaunit_def unit_to_megaunit_in_def
  unit_to_gigaunit_def unit_to_gigaunit_in_def
  unit_to_milliunit_def unit_to_milliunit_in_def
  unit_to_microunit_def unit_to_microunit_in_def
  unit_to_nanounit_def unit_to_nanounit_in_def

lemma ohms_to_siemens_np_scalar:
  "ohms_to_siemens (PyArr (Zero_d x)) = Inr (PyArr (Zero_d (float_truediv (Fin 1) x)))"
  by (simp add: ohms_to_siemens_def ohms_to_siemens_in_def float_truediv_def)

lemma float_truediv_finite:
  "b \<noteq> 0 \<Longrightarrow> float_truediv (Fin a) (Fin b) = Fin (a / b)"
  by (simp add: float_truediv_def exact_def)


lemma bioemo_volts_to_ohms_np_scalar:
  "0 < V \<Longrightarrow> bioemo_volts_to_ohms (PyArr (Zero_d (Fin V))) =
     Inr (PyArr (Zero_d (Fin ((0.861 / 0.00117 - 1 / 0.00117 * ln V) * 1000))))"
  by (simp add: exact_arithmetic)

text \<open>
  On a plain list the pipeline functions work elementwise and return an array of the
  same length; the rescaling helpers raise, in any arithmetic.
\<close>

lemma bioemo_readings_to_volts_list:
  "bioemo_readings_to_volts (PyList (map (\<lambda>x. Num (Fin x)) xs)) =
     Inr (PyArr (One_d (map (\<lambda>x. Fin ((x / 1023) * 5)) xs)))"
  by (simp add: exact_arithmetic list_all_iff comp_def)

lemma ohms_to_siemens_list:
  "ohms_to_siemens (PyList (map Num xs)) =
     Inr (PyArr (One_d (map (float_truediv (Fin 1)) xs)))"
  by (simp add: ohms_to_siemens_def ohms_to_siemens_in_def float_truediv_def list_all_iff
      comp_def)

lemma unit_helpers_in_list:
  "unit_to_kilounit_in ar (PyList xs) = Inl TypeError"
  "unit_to_megaunit_in ar (PyList xs) = Inl TypeError"
  "unit_to_gigaunit_in ar (PyList xs) = Inl TypeError"
  "unit_to_milliunit_in ar (PyList xs) = Inl TypeError"
  "unit_to_microunit_in ar (PyList xs) = Inl TypeError"
  "unit_to_nanounit_in ar (PyList xs) = Inl TypeError"
  by (simp_all add: unit_to_kilounit_in_def unit_to_megaunit_in_def unit_to_gigaunit_in_def
      unit_to_milliunit_in_def unit_to_microunit_in_def unit_to_nanounit_in_def)

lemma unit_helpers_list:
  "unit_to_kilounit (PyList xs) = Inl TypeError"
  "unit_to_megaunit (PyList xs) = Inl TypeError"
  "unit_to_gigaunit (PyList xs) = Inl TypeError"
  "unit_to_milliunit (PyList xs) = Inl TypeError"
  "unit_to_microunit (PyList xs) = Inl TypeError"
  "unit_to_nanounit (PyList xs) = Inl TypeError"
  by (simp_all add: exact_arithmetic)

section \<open>The functions in binary64 arithmetic: facts\<close>

lemma float_truediv_in_finite:
  "b \<noteq> 0 \<Longrightarrow> float_truediv_in ar (Fin a) (Fin b) = ar (a / b)"
  by simp

lemma left_binary64:
  "float_truediv_in binary64 (binary64 0.861) (binary64 0.00117) =
     Fin (6473022300958195 / 2 ^ 43)"
  by (simp add: binary64_calibration_offset binary64_calibration_slope binary64_left)

lemma right_binary64:
  "float_truediv_in binary64 (Fin 1) (binary64 0.00117) = Fin (7518028224109401 / 2 ^ 43)"
  by (simp add: binary64_calibration_slope binary64_right)

lemma bioemo_volts_to_ohms_binary64:
  "bioemo_volts_to_ohms_in binary64 (PyFloat v) =
     Inr (PyArr (Zero_d (float_mul_in binary64
       (float_sub_in binary64 (Fin (6473022300958195 / 2 ^ 43))
         (float_mul_in binary64 (Fin (7518028224109401 / 2 ^ 43)) (float_log_in binary64 v)))
       (Fin 1000))))"
  unfolding bioemo_volts_to_ohms_in_def Let_def left_binary64 right_binary64 by simp

lemma bioemo_volts_to_ohms_in_np_scalar:
  "bioemo_volts_to_ohms_in ar (PyArr (Zero_d v)) = bioemo_volts_to_ohms_in ar (PyFloat v)"
  by (simp add: bioemo_volts_to_ohms_in_def)

lemma bioemo_volts_to_siemens_in_scalar:
  assumes "bioemo_volts_to_ohms_in ar (PyFloat v) = Inr (PyArr (Zero_d r))"
  shows "bioemo_volts_to_siemens_in ar (PyFloat v) =
           Inr (PyArr (Zero_d (float_truediv_in ar (Fin 1) r)))"
    and "bioemo_volts_to_siemens_in ar (PyArr (Zero_d v)) =
           Inr (PyArr (Zero_d (float_truediv_in ar (Fin 1) r)))"
  using assms
  by (simp_all add: bioemo_volts_to_siemens_in_def ohms_to_siemens_in_def
      bioemo_volts_to_ohms_in_np_scalar)

lemma bioemo_readings_to_siemens_in_scalar:
  "bioemo_readings_to_siemens_in ar (PyFloat x) =
     bioemo_volts_to_siemens_in ar
       (PyArr (Zero_d (float_mul_in ar (float_truediv_in ar x (Fin 1023)) (Fin 5))))"
  by (simp add: bioemo_readings_to_siemens_in_def bioemo_readings_to_volts_in_def)

text \<open>
  The logarithm of the float next above \<open>exp 0.861\<close> lies above \<open>0.861\<close>, and is
  rounded to the float next above \<open>0.861\<close>.
\<close>

lemma ln_counterexample:
  "0.8610000000000001 < ln (5326688836174327 / 2 ^ 51 :: real)"
  "ln (5326688836174327 / 2 ^ 51 :: real) < 0.86100000000000015"
proof -
  have pos: "(0::real) < 5326688836174327 / 2 ^ 51" by simp
  have "exp (0.8610000000000001::real) < exp (ln (5326688836174327 / 2 ^ 51))"
    using exp_below_counterexample by (simp only: exp_ln [OF pos])
  then show "0.8610000000000001 < ln (5326688836174327 / 2 ^ 51 :: real)"
    by (simp only: exp_less_cancel_iff)
  have "exp (ln (5326688836174327 / 2 ^ 51)) < exp (0.86100000000000015::real)"
    using exp_above_counterexample by (simp only: exp_ln [OF pos])
  then show "ln (5326688836174327 / 2 ^ 51 :: real) < 0.86100000000000015"
    by (simp only: exp_less_cancel_iff)
qed

lemma binary64_ln_counterexample:
  "binary64 (ln (5326688836174327 / 2 ^ 51)) = Fin (7755198558331995 / 2 ^ 53)"
proof -
  note b = ln_counterexample
  have "binary64 (ln (5326688836174327 / 2 ^ 51)) =
      Fin (of_int 7755198558331995 * (1 / 2 ^ 53))"
  proof (rule binary64_eval [where e = "- 1"])
    show "1 / 2 ^ 53 = 2 powr (real_of_int (- 1) - 52)"
      by (simp add: powr_minus divide_simps)
    show "2 ^ 52 * (1 / 2 ^ 53) \<le> \<bar>ln (5326688836174327 / 2 ^ 51 :: real)\<bar>"
      using b(1) by simp
    show "\<bar>ln (5326688836174327 / 2 ^ 51 :: real)\<bar> < 2 ^ 53 * (1 / 2 ^ 53)"
      using b by simp
    show "real_of_int 7755198558331995 - 1 / 2
        < ln (5326688836174327 / 2 ^ 51) / (1 / 2 ^ 53)"
      using b(1) by simp
    show "ln (5326688836174327 / 2 ^ 51) / (1 / 2 ^ 53)
        < real_of_int 7755198558331995 + 1 / 2"
      using b(2) by simp
  qed simp_all
  then show ?thesis by simp
qed

text \<open>
  Above the voltage \<open>2.36553\<close> the computed resistance is negative and bounded, and
  the reciprocal of such a resistance is a negative float.
\<close>

lemma ln_above_margin:
  fixes V :: real
  assumes "2.36553 \<le> V" "V < 2 ^ 1023"
  shows "0.861002 \<le> ln V" "ln V \<le> 710"
proof -
  have pos: "0 < V" using assms(1) by simp
  have "exp 0.861002 < V" using exp_margin_upper assms(1) by simp
  then have "exp 0.861002 < exp (ln V)" using pos by simp
  then show "0.861002 \<le> ln V" by (simp only: exp_less_cancel_iff less_imp_le)
  have "ln V \<le> ln (2 ^ 1023)" using assms(2) pos by simp
  also have "\<dots> = real 1023 * ln 2" by (rule ln_realpow)
  also have "\<dots> \<le> 710" using ln_2_upper by simp
  finally show "ln V \<le> 710" .
qed

lemma bioemo_volts_to_ohms_negative:
  assumes "2.36553 \<le> V" "V < 2 ^ 1023"
  obtains R where
    "bioemo_volts_to_ohms_in binary64 (PyFloat (Fin V)) = Inr (PyArr (Zero_d (Fin R)))"
    "- (10 ^ 9) \<le> R" "R \<le> - 0.6"
proof -
  have pos: "0 < V" using assms(1) by simp
  note l = ln_above_margin [OF assms]
  obtain L where L: "binary64 (ln V) = Fin L"
      "0.861002 * (1 - 1 / 2 ^ 53) \<le> L" "L \<le> 710 * (1 + 1 / 2 ^ 53)"
    using l by (rule binary64_pos_between) simp_all
  have Lb: "0.861001 \<le> L" "L \<le> 711" using L(2,3) by simp_all
  have "7518028224109401 / 2 ^ 43 * 0.861001 \<le> 7518028224109401 / 2 ^ 43 * L"
      "7518028224109401 / 2 ^ 43 * L \<le> 7518028224109401 / 2 ^ 43 * 711"
    using Lb by simp_all
  then obtain P where P: "binary64 (7518028224109401 / 2 ^ 43 * L) = Fin P"
      "7518028224109401 / 2 ^ 43 * 0.861001 * (1 - 1 / 2 ^ 53) \<le> P"
      "P \<le> 7518028224109401 / 2 ^ 43 * 711 * (1 + 1 / 2 ^ 53)"
    by (rule binary64_pos_between) simp_all
  have Pb: "735.8981 \<le> P" "P \<le> 607700" using P(2,3) by simp_all
  have "6473022300958195 / 2 ^ 43 - 607700 \<le> 6473022300958195 / 2 ^ 43 - P"
      "6473022300958195 / 2 ^ 43 - P \<le> 6473022300958195 / 2 ^ 43 - 735.8981"
    using Pb by simp_all
  then obtain D where D: "binary64 (6473022300958195 / 2 ^ 43 - P) = Fin D"
      "(6473022300958195 / 2 ^ 43 - 607700) * (1 + 1 / 2 ^ 53) \<le> D"
      "D \<le> (6473022300958195 / 2 ^ 43 - 735.8981) * (1 - 1 / 2 ^ 53)"
    by (rule binary64_neg_between) simp_all
  have Db: "- 607000 \<le> D" "D \<le> - 0.00065" using D(2,3) by simp_all
  have "- 607000 * 1000 \<le> D * 1000" "D * 1000 \<le> - 0.00065 * 1000"
    using Db by simp_all
  then obtain R where R: "binary64 (D * 1000) = Fin R"
      "- 607000 * 1000 * (1 + 1 / 2 ^ 53) \<le> R" "R \<le> - 0.00065 * 1000 * (1 - 1 / 2 ^ 53)"
    by (rule binary64_neg_between) simp_all
  have Rb: "- (10 ^ 9) \<le> R" "R \<le> - 0.6" using R(2,3) by simp_all
  have "bioemo_volts_to_ohms_in binary64 (PyFloat (Fin V)) = Inr (PyArr (Zero_d (Fin R)))"
    using pos L(1) P(1) D(1) R(1) by (simp add: bioemo_volts_to_ohms_binary64)
  with Rb that show ?thesis by blast
qed

lemma reciprocal_negative:
  assumes "- (10 ^ 9) \<le> R" "R \<le> - 0.6"
  obtains S where "float_truediv_in binary64 (Fin 1) (Fin R) = Fin S" "S < 0"
proof -
  have neg: "R < 0" using assms(2) by simp
  have "1 / - 0.6 \<le> 1 / R" using assms(2) neg by (simp add: field_simps)
  moreover have "1 / R \<le> 1 / - (10 ^ 9)" using assms(1) neg by (simp add: field_simps)
  ultimately obtain S where S: "binary64 (1 / R) = Fin S"
      "1 / - 0.6 * (1 + 1 / 2 ^ 53) \<le> S" "S \<le> 1 / - (10 ^ 9) * (1 - 1 / 2 ^ 53)"
    by (rule binary64_neg_between) simp_all
  have "S < 0" using S(3) by simp
  moreover have "float_truediv_in binary64 (Fin 1) (Fin R) = Fin S"
    using neg S(1) by simp
  ultimately show ?thesis using that by blast
qed

lemma bioemo_readings_to_volts_above_margin:
  assumes "484 \<le> x" "x < 2 ^ 1000"
  obtains V where
    "float_mul_in binary64 (float_truediv_in binary64 (Fin x) (Fin 1023)) (Fin 5) = Fin V"
    "2.36553 \<le> V" "V < 2 ^ 1023"
proof -
  have "484 / 1023 \<le> x / 1023" "x / 1023 \<le> 2 ^ 1000 / 1023"
    using assms by simp_all
  then obtain q where q: "binary64 (x / 1023) = Fin q"
      "484 / 1023 * (1 - 1 / 2 ^ 53) \<le> q" "q \<le> 2 ^ 1000 / 1023 * (1 + 1 / 2 ^ 53)"
    by (rule binary64_pos_between) simp_all
  have "484 / 1023 * (1 - 1 / 2 ^ 53) * 5 \<le> q * 5"
      "q * 5 \<le> 2 ^ 1000 / 1023 * (1 + 1 / 2 ^ 53) * 5"
    using q(2,3) by simp_all
  then obtain V where V: "binary64 (q * 5) = Fin V"
      "484 / 1023 * (1 - 1 / 2 ^ 53) * 5 * (1 - 1 / 2 ^ 53) \<le> V"
      "V \<le> 2 ^ 1000 / 1023 * (1 + 1 / 2 ^ 53) * 5 * (1 + 1 / 2 ^ 53)"
    by (rule binary64_pos_between) simp_all
  have "2.36553 \<le> V" "V < 2 ^ 1023" using V(2,3) by simp_all
  moreover have
    "float_mul_in binary64 (float_truediv_in binary64 (Fin x) (Fin 1023)) (Fin 5) = Fin V"
    by (simp add: q(1) V(1))
  ultimately show ?thesis using that by blast
qed

lemma milli_then_kilo_in_scalar:
  "and_then (unit_to_milliunit_in ar (PyFloat v)) (unit_to_kilounit_in ar) =
     Inr (PyFloat (float_truediv_in ar (float_mul_in ar v (Fin 1000)) (Fin 1000)))"
  by (simp add: unit_to_milliunit_in_def unit_to_kilounit_in_def)

lemma cross_scale_check_in_scalar:
  "cross_scale_check_in ar (PyFloat v) =
     Inr (PyFloat (float_truediv_in ar
       (float_truediv_in ar (float_mul_in ar v (Fin 1000)) (Fin 1000)) (Fin 1000000)))"
  by (simp add: cross_scale_check_in_def unit_to_milliunit_in_def unit_to_kilounit_in_def)

lemma reciprocal_round_trip_in_scalar:
  "and_then (siemens_to_ohms_in ar (PyFloat v)) (ohms_to_siemens_in ar) =
     Inr (PyArr (Zero_d (float_truediv_in ar (Fin 1) (float_truediv_in ar (Fin 1) v))))"
  by (simp add: siemens_to_ohms_in_def ohms_to_siemens_in_def)

text \<open>The conversion of an \<^verbatim>\<open>int\<close> to a float.\<close>

lemma int_to_float_binary64_returns:
  assumes "\<bar>i\<bar> < 2 ^ 1023"
  shows "\<exists>y. int_to_float binary64 i = Inr (Fin y)"
  using binary64_of_int_finite [OF assms] by (auto simp: int_to_float_def)

lemma int_to_float_binary64_overflow:
  assumes "2 ^ 1024 \<le> \<bar>i\<bar>"
  shows "int_to_float binary64 i = Inl OverflowError"
proof -
  have "real_of_int (2 ^ 1024) \<le> real_of_int \<bar>i\<bar>" using assms by (simp only: of_int_le_iff)
  then have "2 ^ 1024 \<le> \<bar>real_of_int i\<bar>" by simp
  then show ?thesis by (simp add: int_to_float_def binary64_overflow)
qed

text \<open>
  What the functions do on the inputs of float64 numbers and on the inputs that hold a
  string.
\<close>

lemma ufunc_in_returns:
  "float64_input v \<Longrightarrow>
     \<exists>r. ufunc_in ar f (asarray_in ar v) = Inr r \<and> float64_input (PyArr r) \<and>
         shape (PyArr r) = shape v"
  by (cases v rule: float64_input.cases) simp_all

lemma np_log_in_returns:
  "float64_input v \<Longrightarrow>
     \<exists>r. np_log_in ar (asarray_in ar v) = Inr r \<and> float64_input (PyArr r) \<and>
         shape (PyArr r) = shape v"
  by (cases v rule: float64_input.cases) simp_all

lemma ufunc_in_array_returns:
  "float64_input (PyArr a) \<Longrightarrow>
     \<exists>r. ufunc_in ar f a = Inr r \<and> float64_input (PyArr r) \<and> shape (PyArr r) = shape (PyArr a)"
  by (cases a) simp_all

lemma asarray_in_string: "string_input w \<Longrightarrow> asarray_in ar w = Str_arr"
  by (cases w rule: string_input.cases) simp_all

lemma bioemo_readings_to_volts_in_returns:
  assumes "float64_input v"
  shows "\<exists>r. bioemo_readings_to_volts_in ar v = Inr (PyArr r) \<and> float64_input (PyArr r) \<and>
           shape (PyArr r) = shape v"
proof -
  obtain q where q: "ufunc_in ar (\<lambda>x. float_truediv_in ar x (Fin 1023)) (asarray_in ar v) = Inr q"
      "float64_input (PyArr q)" "shape (PyArr q) = shape v"
    using ufunc_in_returns [OF assms] by blast
  obtain r where r: "ufunc_in ar (\<lambda>x. float_mul_in ar x (Fin 5)) q = Inr r"
      "float64_input (PyArr r)" "shape (PyArr r) = shape (PyArr q)"
    using ufunc_in_array_returns [OF q(2)] by blast
  show ?thesis
    using q r by (simp add: bioemo_readings_to_volts_in_def)
qed

lemma bioemo_volts_to_ohms_in_returns:
  assumes "float64_input v"
  shows "\<exists>r. bioemo_volts_to_ohms_in ar v = Inr (PyArr r) \<and> float64_input (PyArr r) \<and>
           shape (PyArr r) = shape v"
proof -
  obtain l where l: "np_log_in ar (asarray_in ar v) = Inr l"
      "float64_input (PyArr l)" "shape (PyArr l) = shape v"
    using np_log_in_returns [OF assms] by blast
  obtain p where p: "ufunc_in ar (\<lambda>x. float_mul_in ar
        (float_truediv_in ar (Fin 1) (ar 0.00117)) x) l = Inr p"
      "float64_input (PyArr p)" "shape (PyArr p) = shape (PyArr l)"
    using ufunc_in_array_returns [OF l(2)] by blast
  obtain d where d: "ufunc_in ar (\<lambda>x. float_sub_in ar
        (float_truediv_in ar (ar 0.861) (ar 0.00117)) x) p = Inr d"
      "float64_input (PyArr d)" "shape (PyArr d) = shape (PyArr p)"
    using ufunc_in_array_returns [OF p(2)] by blast
  obtain r where r: "ufunc_in ar (\<lambda>x. float_mul_in ar x (Fin 1000)) d = Inr r"
      "float64_input (PyArr r)" "shape (PyArr r) = shape (PyArr d)"
    using ufunc_in_array_returns [OF d(2)] by blast
  show ?thesis
    using l p d r by (simp add: bioemo_volts_to_ohms_in_def)
qed

lemma ohms_to_siemens_in_returns:
  assumes "float64_input v"
  shows "\<exists>r. ohms_to_siemens_in ar v = Inr (PyArr r) \<and> float64_input (PyArr r) \<and>
           shape (PyArr r) = shape v"
proof -
  obtain r where r: "ufunc_in ar (\<lambda>x. float_truediv_in ar (Fin 1) x) (asarray_in ar v) = Inr r"
      "float64_input (PyArr r)" "shape (PyArr r) = shape v"
    using ufunc_in_returns [OF assms] by blast
  then show ?thesis
    by (simp add: ohms_to_siemens_in_def)
qed

lemma bioemo_volts_to_siemens_in_returns:
  assumes "float64_input v"
  shows "\<exists>r. bioemo_volts_to_siemens_in ar v = Inr (PyArr r) \<and> float64_input (PyArr r) \<and>
           shape (PyArr r) = shape v"
proof -
  obtain o' where o': "bioemo_volts_to_ohms_in ar v = Inr (PyArr o')"
      "float64_input (PyArr o')" "shape (PyArr o') = shape v"
    using bioemo_volts_to_ohms_in_returns [OF assms] by blast
  obtain r where r: "ohms_to_siemens_in ar (PyArr o') = Inr (PyArr r)"
      "float64_input (PyArr r)" "shape (PyArr r) = shape (PyArr o')"
    using ohms_to_siemens_in_returns [OF o'(2)] by blast
  show ?thesis
    using o' r by (simp add: bioemo_volts_to_siemens_in_def)
qed

lemma asarray_in_float64_input:
  "float64_input v \<Longrightarrow>
     float64_input (PyArr (asarray_in ar v)) \<and> shape (PyArr (asarray_in ar v)) = shape v"
  by (cases v rule: float64_input.cases) simp_all

lemma bioemo_readings_to_siemens_in_returns:
  assumes "float64_input v"
  shows "\<exists>r. bioemo_readings_to_siemens_in ar v = Inr (PyArr r) \<and> float64_input (PyArr r) \<and>
           shape (PyArr r) = shape v"
proof -
  note a = asarray_in_float64_input [OF assms, of ar]
  obtain volts where volts:
      "bioemo_readings_to_volts_in ar (PyArr (asarray_in ar v)) = Inr (PyArr volts)"
      "float64_input (PyArr volts)" "shape (PyArr volts) = shape (PyArr (asarray_in ar v))"
    using bioemo_readings_to_volts_in_returns [of "PyArr (asarray_in ar v)" ar] a by blast
  obtain r where r: "bioemo_volts_to_siemens_in ar (PyArr volts) = Inr (PyArr r)"
      "float64_input (PyArr r)" "shape (PyArr r) = shape (PyArr volts)"
    using bioemo_volts_to_siemens_in_returns [OF volts(2)] by blast
  show ?thesis
    using a volts r by (simp add: bioemo_readings_to_siemens_in_def)
qed

lemma pipeline_functions_in_return:
  assumes "float64_input v" and "f \<in> set (pipeline_functions_in ar)"
  shows "returns_in_shape f v"
proof -
  have "\<exists>r. f v = Inr (PyArr r) \<and> float64_input (PyArr r) \<and> shape (PyArr r) = shape v"
    using assms(2) bioemo_readings_to_volts_in_returns [OF assms(1), of ar]
      bioemo_volts_to_ohms_in_returns [OF assms(1), of ar]
      bioemo_volts_to_siemens_in_returns [OF assms(1), of ar]
      bioemo_readings_to_siemens_in_returns [OF assms(1), of ar]
      ohms_to_siemens_in_returns [OF assms(1), of ar]
    unfolding pipeline_functions_in_def siemens_to_ohms_in_def [abs_def] by auto
  then show ?thesis
    unfolding returns_in_shape_def by blast
qed

lemma pipeline_functions_in_raise:
  assumes "string_input w" and "f \<in> set (pipeline_functions_in ar)"
  shows "f w = Inl TypeError"
proof -
  note s = asarray_in_string [OF assms(1)]
  have "bioemo_volts_to_ohms_in ar w = Inl TypeError"
    by (simp add: bioemo_volts_to_ohms_in_def s)
  then show ?thesis
    using assms(2)
    by (auto simp: pipeline_functions_in_def bioemo_readings_to_volts_in_def
        bioemo_volts_to_siemens_in_def bioemo_readings_to_siemens_in_def
        ohms_to_siemens_in_def siemens_to_ohms_in_def s)
qed

lemma py_truediv_in_returns:
  assumes "float64_input v" "\<not> plain_list v" "c \<noteq> 0"
  shows "returns_in_shape (\<lambda>v. py_truediv_in binary64 v c) v"
proof (cases v)
  case (PyInt i)
  with assms(1) have "- (2 ^ 63) \<le> i" "i < 2 ^ 63" by simp_all
  moreover have "(2::int) ^ 63 < 2 ^ 1023" by simp
  ultimately have "\<bar>i\<bar> < 2 ^ 1023" by linarith
  then obtain y where "int_to_float binary64 i = Inr (Fin y)"
    using int_to_float_binary64_returns by blast
  with PyInt assms(3) show ?thesis by (simp add: returns_in_shape_def)
next
  case (PyArr a)
  with assms(1) show ?thesis by (cases a) (simp_all add: returns_in_shape_def)
qed (use assms in \<open>simp_all add: returns_in_shape_def\<close>)

lemma py_mul_in_returns:
  assumes "float64_input v" "\<not> plain_list v"
  shows "returns_in_shape (\<lambda>v. py_mul_in binary64 v c) v"
proof (cases v)
  case (PyInt i)
  with assms(1) have "- (2 ^ 63) \<le> i" "i < 2 ^ 63" by simp_all
  moreover have "(2::int) ^ 63 < 2 ^ 1023" by simp
  ultimately have "\<bar>i\<bar> < 2 ^ 1023" by linarith
  then obtain y where "int_to_float binary64 i = Inr (Fin y)"
    using int_to_float_binary64_returns by blast
  with PyInt show ?thesis by (simp add: returns_in_shape_def)
next
  case (PyArr a)
  with assms(1) show ?thesis by (cases a) (simp_all add: returns_in_shape_def)
qed (use assms in \<open>simp_all add: returns_in_shape_def\<close>)

lemma py_operators_raise:
  assumes "string_input w"
  shows "py_truediv_in ar w c = Inl TypeError" "py_mul_in ar w c = Inl TypeError"
  using assms by (cases w rule: string_input.cases; simp)+

lemma rescaling_helpers_in_unfold:
  assumes "f \<in> set (rescaling_helpers_in ar)"
  obtains c where "c \<noteq> 0" "f = (\<lambda>v. py_truediv_in ar v c)"
  | c where "f = (\<lambda>v. py_mul_in ar v c)"
proof -
  have "f = (\<lambda>v. py_truediv_in ar v 1000) \<or> f = (\<lambda>v. py_truediv_in ar v 1000000) \<or>
      f = (\<lambda>v. py_truediv_in ar v 1000000000) \<or> f = (\<lambda>v. py_mul_in ar v 1000) \<or>
      f = (\<lambda>v. py_mul_in ar v 1000000) \<or> f = (\<lambda>v. py_mul_in ar v 1000000000)"
    using assms
    unfolding rescaling_helpers_in_def unit_to_kilounit_in_def [abs_def]
      unit_to_megaunit_in_def [abs_def] unit_to_gigaunit_in_def [abs_def]
      unit_to_milliunit_in_def [abs_def] unit_to_microunit_in_def [abs_def]
      unit_to_nanounit_in_def [abs_def]
    by simp
  moreover have "(1000::real) \<noteq> 0" "(1000000::real) \<noteq> 0" "(1000000000::real) \<noteq> 0"
    by simp_all
  ultimately show ?thesis using that by blast
qed

lemma rescaling_helpers_in_return:
  assumes "float64_input v" "\<not> plain_list v" and "f \<in> set (rescaling_helpers_in binary64)"
  shows "returns_in_shape f v"
  using assms(3)
  by (rule rescaling_helpers_in_unfold)
    (simp_all add: py_truediv_in_returns [OF assms(1,2)] py_mul_in_returns [OF assms(1,2)])

lemma rescaling_helpers_in_raise:
  assumes "string_input w" and "f \<in> set (rescaling_helpers_in ar)"
  shows "f w = Inl TypeError"
  using assms(2)
  by (rule rescaling_helpers_in_unfold) (simp_all add: py_operators_raise [OF assms(1)])

lemma rescaling_helpers_in_overflow:
  assumes "2 ^ 1024 \<le> \<bar>i\<bar>" and "f \<in> set (rescaling_helpers_in binary64)"
  shows "f (PyInt i) = Inl OverflowError"
  using assms(2)
  by (rule rescaling_helpers_in_unfold)
    (simp_all add: int_to_float_binary64_overflow [OF assms(1)])

section \<open>The claims\<close>




text \<open>
  C3. The pipeline is a chain of compositions: \<^verbatim>\<open>bioemo_volts_to_siemens\<close> is
  \<^verbatim>\<open>bioemo_volts_to_ohms\<close> followed by \<^verbatim>\<open>ohms_to_siemens\<close>, which on a
  scalar is the reciprocal of the resistance, and \<^verbatim>\<open>bioemo_readings_to_siemens\<close> is
  \<^verbatim>\<open>bioemo_readings_to_volts\<close> followed by \<^verbatim>\<open>bioemo_volts_to_siemens\<close>;
  \<^verbatim>\<open>bioemo_readings_to_siemens(512)\<close> is within 0.001 of -2.0793430561630236e-05.
\<close>

theorem siemens_composition_chain:
  "bioemo_volts_to_siemens v = and_then (bioemo_volts_to_ohms v) ohms_to_siemens \<and>
   bioemo_readings_to_siemens v =
     and_then (bioemo_readings_to_volts v) bioemo_volts_to_siemens \<and>
   (\<exists>R. bioemo_volts_to_ohms (PyFloat V) = Inr (PyArr (Zero_d R)) \<and>
        bioemo_volts_to_siemens (PyFloat V) =
          Inr (PyArr (Zero_d (float_truediv (Fin 1) R)))) \<and>
   (\<exists>S. bioemo_readings_to_siemens (PyFloat (Fin 512)) = Inr (PyArr (Zero_d (Fin S))) \<and>
        \<bar>S - (- 0.000020793430561630236)\<bar> < 0.001)"
proof (intro conjI)
  show c1: "bioemo_volts_to_siemens v = and_then (bioemo_volts_to_ohms v) ohms_to_siemens"
    for v
    by (cases "bioemo_volts_to_ohms_in exact v";
        cases "ohms_to_siemens_in exact (projr (bioemo_volts_to_ohms_in exact v))")
      (simp_all add: bioemo_volts_to_siemens_def bioemo_volts_to_siemens_in_def
        bioemo_volts_to_ohms_def ohms_to_siemens_def)
  have idem: "asarray_in ar (PyArr (asarray_in ar w)) = asarray_in ar w" for ar w
    by simp
  show c2: "bioemo_readings_to_siemens v =
      and_then (bioemo_readings_to_volts v) bioemo_volts_to_siemens" for v
    by (simp add: bioemo_readings_to_siemens_def bioemo_readings_to_siemens_in_def
        bioemo_readings_to_volts_def bioemo_readings_to_volts_in_def
        bioemo_volts_to_siemens_def)
  show "\<exists>R. bioemo_volts_to_ohms (PyFloat V) = Inr (PyArr (Zero_d R)) \<and>
        bioemo_volts_to_siemens (PyFloat V) = Inr (PyArr (Zero_d (float_truediv (Fin 1) R)))"
    by (simp add: c1 bioemo_volts_to_ohms_def bioemo_volts_to_ohms_in_def
        ohms_to_siemens_np_scalar)
  define R :: real where "R = (0.861 / 0.00117 - 1 / 0.00117 * ln (2560 / 1023)) * 1000"
  have "R < - 1000"
    using ln_midrange_lower by (simp add: R_def)
  then have "- 0.001 < 1 / R" "1 / R < 0"
    by (simp_all add: field_simps)
  moreover define S where "S = 1 / R"
  ultimately have "- 0.001 < S" "S < 0"
    by simp_all
  then have "\<bar>S - (- 0.000020793430561630236)\<bar> < 0.001"
    unfolding abs_less_iff by simp
  then have close: "\<bar>1 / R - (- 0.000020793430561630236)\<bar> < 0.001"
    by (simp only: S_def)
  have "R \<noteq> 0" using \<open>R < - 1000\<close> by simp
  moreover have "bioemo_readings_to_volts (PyFloat (Fin 512)) =
      Inr (PyArr (Zero_d (Fin (2560 / 1023))))"
    by (simp add: exact_arithmetic)
  ultimately
  have "bioemo_readings_to_siemens (PyFloat (Fin 512)) = Inr (PyArr (Zero_d (Fin (1 / R))))"
    by (simp add: c2 c1 bioemo_volts_to_ohms_np_scalar ohms_to_siemens_np_scalar
        float_truediv_finite R_def)
  with close show "\<exists>S. bioemo_readings_to_siemens (PyFloat (Fin 512)) =
        Inr (PyArr (Zero_d (Fin S))) \<and> \<bar>S - (- 0.000020793430561630236)\<bar> < 0.001"
    by blast
qed

text \<open>
  C4, with the rounding of float64.
  The reciprocal taken twice is not the identity on floats: on 49 it
  returns the next float above 49. What holds for every float \<open>s\<close> whose magnitude lies
  between \<open>2 ^ -1021\<close> and \<open>2 ^ 1021\<close>: \<^verbatim>\<open>ohms_to_siemens(siemens_to_ohms(s))\<close>
  is a finite float within the relative distance \<open>2 ^ -51\<close> of \<open>s\<close>. The rest of the
  claim stands: \<^verbatim>\<open>siemens_to_ohms\<close> and \<^verbatim>\<open>ohms_to_siemens\<close> are the same function,
  on an array it is the reciprocal of every element, and \<^verbatim>\<open>ohms_to_siemens(512)\<close> is
  exactly \<open>1 / 512\<close>.
\<close>

theorem reciprocal_round_trip_within_rounding:
  assumes "1 / 2 ^ 1021 \<le> \<bar>s\<bar>" and "\<bar>s\<bar> \<le> 2 ^ 1021"
  shows "(\<exists>z. and_then (siemens_to_ohms_in binary64 (PyFloat (Fin s)))
                (ohms_to_siemens_in binary64) = Inr (PyArr (Zero_d (Fin z))) \<and>
              \<bar>z - s\<bar> \<le> \<bar>s\<bar> / 2 ^ 51) \<and>
         siemens_to_ohms_in binary64 = ohms_to_siemens_in binary64 \<and>
         ohms_to_siemens_in binary64 (PyArr (One_d xs)) =
           Inr (PyArr (One_d (map (float_truediv_in binary64 (Fin 1)) xs))) \<and>
         ohms_to_siemens_in binary64 (PyFloat (Fin 512)) =
           Inr (PyArr (Zero_d (Fin (1 / 512))))"
proof (intro conjI)
  show "\<exists>z. and_then (siemens_to_ohms_in binary64 (PyFloat (Fin s)))
                (ohms_to_siemens_in binary64) = Inr (PyArr (Zero_d (Fin z))) \<and>
              \<bar>z - s\<bar> \<le> \<bar>s\<bar> / 2 ^ 51"
    using reciprocal_twice [OF assms] by (simp add: reciprocal_round_trip_in_scalar)
  show "siemens_to_ohms_in binary64 = ohms_to_siemens_in binary64"
    by (rule ext) (simp add: siemens_to_ohms_in_def)
  show "ohms_to_siemens_in binary64 (PyArr (One_d xs)) =
      Inr (PyArr (One_d (map (float_truediv_in binary64 (Fin 1)) xs)))"
    by (simp add: ohms_to_siemens_in_def)
  show "ohms_to_siemens_in binary64 (PyFloat (Fin 512)) =
      Inr (PyArr (Zero_d (Fin (1 / 512))))"
    by (simp add: ohms_to_siemens_in_def binary64_recip_512)
qed

theorem reciprocal_round_trip_within_rounding_witness:
  "(1 / 2 ^ 1021 \<le> \<bar>49::real\<bar> \<and> \<bar>49::real\<bar> \<le> 2 ^ 1021) \<and>
   (\<exists>z. and_then (siemens_to_ohms_in binary64 (PyFloat (Fin 49)))
          (ohms_to_siemens_in binary64) = Inr (PyArr (Zero_d (Fin z))) \<and>
        \<bar>z - 49\<bar> \<le> \<bar>49\<bar> / 2 ^ 51)"
proof -
  have lo: "1 / 2 ^ 1021 \<le> \<bar>49::real\<bar>" by simp
  have hi: "\<bar>49::real\<bar> \<le> 2 ^ 1021" by simp
  from reciprocal_round_trip_within_rounding [OF lo hi, of "[]"] lo hi
  show ?thesis by blast
qed

theorem reciprocal_round_trip_counterexample:
  "and_then (siemens_to_ohms_in binary64 (PyFloat (Fin 49))) (ohms_to_siemens_in binary64) =
     Inr (PyArr (Zero_d (Fin (49 + 1 / 2 ^ 47)))) \<and>
   (49::real) + 1 / 2 ^ 47 \<noteq> 49"
  by (simp add: siemens_to_ohms_in_def ohms_to_siemens_in_def binary64_recip_49
      binary64_recip_recip_49)

text \<open>
  C5, with the rounding of float64.
  \<^verbatim>\<open>unit_to_kilounit(unit_to_milliunit(x)) / 1e6\<close> is not \<open>x\<close>: on 1
  it is the float nearest to \<open>1 / 1000000\<close>. What holds for zero and for every float
  \<open>x\<close> whose magnitude lies between \<open>2 ^ -1000\<close> and \<open>2 ^ 1000\<close>: the expression is a
  finite float within the relative distance \<open>2 ^ -51\<close> of \<open>x / 1000000\<close>.
\<close>

theorem cross_scale_check_within_rounding:
  assumes "x = 0 \<or> 1 / 2 ^ 1000 \<le> \<bar>x\<bar> \<and> \<bar>x\<bar> \<le> 2 ^ 1000"
  shows "\<exists>z. cross_scale_check_in binary64 (PyFloat (Fin x)) = Inr (PyFloat (Fin z)) \<and>
             \<bar>z - x / 1000000\<bar> \<le> \<bar>x / 1000000\<bar> / 2 ^ 51"
proof (cases "x = 0")
  case True
  then show ?thesis
    by (simp add: cross_scale_check_in_scalar binary64_zero)
next
  case False
  with assms have lo: "1 / 2 ^ 1000 \<le> \<bar>x\<bar>" and hi: "\<bar>x\<bar> \<le> 2 ^ 1000" by simp_all
  obtain a b where ab:
      "float_truediv_in binary64 (float_mul_in binary64 (Fin x) (Fin 1000)) (Fin 1000) =
         Fin (x * (a * b))"
      "1 - 1 / 2 ^ 53 \<le> a" "a \<le> 1 + 1 / 2 ^ 53" "1 - 1 / 2 ^ 53 \<le> b" "b \<le> 1 + 1 / 2 ^ 53"
    using lo hi by (rule milli_then_kilo)
  note t = two_factors [OF ab(2-5)]
  have "1 / 2 \<le> a * b" "a * b \<le> 2" using t by simp_all
  note r = scaled_range [OF lo hi this]
  have "\<bar>x * (a * b) / 1000000\<bar> = \<bar>x * (a * b)\<bar> / 1000000" by simp
  moreover have "1 / 2 ^ 1022 \<le> 1 / 2 ^ 1000 / 2 / (1000000::real)"
      "(2 ^ 1000 :: real) * 2 / 1000000 < 2 ^ 1023"
    by simp_all
  moreover have "1 / 2 ^ 1000 / 2 / 1000000 \<le> \<bar>x * (a * b)\<bar> / 1000000"
      "\<bar>x * (a * b)\<bar> / 1000000 \<le> 2 ^ 1000 * 2 / 1000000"
    using r by (simp_all add: divide_right_mono)
  ultimately have "1 / 2 ^ 1022 \<le> \<bar>x * (a * b) / 1000000\<bar>"
      "\<bar>x * (a * b) / 1000000\<bar> < 2 ^ 1023"
    by linarith+
  then obtain c where c:
      "binary64 (x * (a * b) / 1000000) = Fin (x * (a * b) / 1000000 * c)"
      "1 - 1 / 2 ^ 53 \<le> c" "c \<le> 1 + 1 / 2 ^ 53"
    by (rule binary64_factor)
  have "float_truediv_in binary64 (Fin (x * (a * b))) (Fin 1000000) =
      binary64 (x * (a * b) / 1000000)"
    by (rule float_truediv_in_finite) simp
  also have "\<dots> = Fin (x / 1000000 * (a * b * c))"
    unfolding c(1) by simp
  finally have "cross_scale_check_in binary64 (PyFloat (Fin x)) =
      Inr (PyFloat (Fin (x / 1000000 * (a * b * c))))"
    by (simp only: cross_scale_check_in_scalar ab(1))
  moreover have "\<bar>x / 1000000 * (a * b * c) - x / 1000000\<bar> \<le> \<bar>x / 1000000\<bar> / 2 ^ 51"
    by (rule relative_error [OF three_factors [OF ab(2-5) c(2,3)]])
  ultimately show ?thesis by blast
qed

theorem cross_scale_check_within_rounding_witness:
  "((8::real) = 0 \<or> 1 / 2 ^ 1000 \<le> \<bar>8::real\<bar> \<and> \<bar>8::real\<bar> \<le> 2 ^ 1000) \<and>
   (\<exists>z. cross_scale_check_in binary64 (PyFloat (Fin 8)) = Inr (PyFloat (Fin z)) \<and>
        \<bar>z - 8 / 1000000\<bar> \<le> \<bar>8 / 1000000\<bar> / 2 ^ 51)"
proof -
  have h: "(8::real) = 0 \<or> 1 / 2 ^ 1000 \<le> \<bar>8::real\<bar> \<and> \<bar>8::real\<bar> \<le> 2 ^ 1000" by simp
  from cross_scale_check_within_rounding [OF h] h show ?thesis by blast
qed

theorem cross_scale_check_counterexample:
  "cross_scale_check_in binary64 (PyFloat (Fin 1)) =
     Inr (PyFloat (Fin (4722366482869645 / 2 ^ 72))) \<and>
   (4722366482869645 / 2 ^ 72 :: real) \<noteq> 1"
  by (simp add: cross_scale_check_in_def unit_to_milliunit_in_def unit_to_kilounit_in_def
      binary64_1000 binary64_1 binary64_micro)


text \<open>
  C7, at the input where the code departs from it. On the plain list \<^verbatim>\<open>[1, 2, 3]\<close>
  the rescaling helpers raise \<^verbatim>\<open>TypeError\<close>, where the pipeline functions, which
  pass their argument through \<^verbatim>\<open>np.asarray\<close>, return the array of the three
  converted values.
\<close>

theorem unit_helpers_reject_plain_list:
  "unit_to_kilounit (PyList [Num (Fin 1), Num (Fin 2), Num (Fin 3)]) = Inl TypeError \<and>
   unit_to_milliunit (PyList [Num (Fin 1), Num (Fin 2), Num (Fin 3)]) = Inl TypeError \<and>
   bioemo_readings_to_volts (PyList [Num (Fin 1), Num (Fin 2), Num (Fin 3)]) =
     Inr (PyArr (One_d [Fin ((1 / 1023) * 5), Fin ((2 / 1023) * 5), Fin ((3 / 1023) * 5)])) \<and>
   ohms_to_siemens (PyList [Num (Fin 1), Num (Fin 2), Num (Fin 3)]) =
     Inr (PyArr (One_d [Fin 1, Fin (1 / 2), Fin (1 / 3)]))"
  by (simp add: exact_arithmetic)

text \<open>
  C8, with the errors of Python arithmetic.
  \<^verbatim>\<open>TypeError\<close> is not the only error: a rescaling helper given the
  Python \<^verbatim>\<open>int\<close> \<open>10 ^ 400\<close>, a real number, raises \<^verbatim>\<open>OverflowError\<close>. What holds:
  a pipeline function returns float64 values in the shape of its input on every input
  of float64 numbers \<open>v\<close>, and raises \<^verbatim>\<open>TypeError\<close> on every input \<open>w\<close> that holds a
  string; a rescaling helper does the same, plain lists apart, and raises
  \<^verbatim>\<open>OverflowError\<close> on every \<^verbatim>\<open>int\<close> of magnitude \<open>2 ^ 1024\<close> or more. The numeric
  edge cases do not raise: \<^verbatim>\<open>ohms_to_siemens(0)\<close> and \<^verbatim>\<open>bioemo_volts_to_ohms(0)\<close>
  are infinite, and \<^verbatim>\<open>bioemo_volts_to_ohms\<close> of a negative voltage is not a number.
\<close>

theorem conversions_return_or_raise:
  "(\<forall>f \<in> set (pipeline_functions_in binary64).
      (float64_input v \<longrightarrow> returns_in_shape f v) \<and>
      (string_input w \<longrightarrow> f w = Inl TypeError)) \<and>
   (\<forall>f \<in> set (rescaling_helpers_in binary64).
      (float64_input v \<and> \<not> plain_list v \<longrightarrow> returns_in_shape f v) \<and>
      (string_input w \<longrightarrow> f w = Inl TypeError) \<and>
      (2 ^ 1024 \<le> \<bar>i\<bar> \<longrightarrow> f (PyInt i) = Inl OverflowError)) \<and>
   ohms_to_siemens_in binary64 (PyFloat (Fin 0)) = Inr (PyArr (Zero_d PInf)) \<and>
   bioemo_volts_to_ohms_in binary64 (PyFloat (Fin 0)) = Inr (PyArr (Zero_d PInf)) \<and>
   (V < 0 \<longrightarrow>
      bioemo_volts_to_ohms_in binary64 (PyFloat (Fin V)) = Inr (PyArr (Zero_d NaN)))"
proof (intro conjI ballI impI)
  show "ohms_to_siemens_in binary64 (PyFloat (Fin 0)) = Inr (PyArr (Zero_d PInf))"
    by (simp add: ohms_to_siemens_in_def)
  show "bioemo_volts_to_ohms_in binary64 (PyFloat (Fin 0)) = Inr (PyArr (Zero_d PInf))"
    by (simp add: bioemo_volts_to_ohms_binary64)
  show "bioemo_volts_to_ohms_in binary64 (PyFloat (Fin V)) = Inr (PyArr (Zero_d NaN))"
    if "V < 0"
    using that by (simp add: bioemo_volts_to_ohms_binary64)
qed (simp_all add: pipeline_functions_in_return pipeline_functions_in_raise
    rescaling_helpers_in_return rescaling_helpers_in_raise rescaling_helpers_in_overflow)

theorem conversions_return_or_raise_witness:
  "(float64_input (PyFloat (Fin 2)) \<and> \<not> plain_list (PyFloat (Fin 2)) \<and> string_input PyStr \<and>
    (2::int) ^ 1024 \<le> \<bar>10 ^ 400\<bar> \<and> (- 1 :: real) < 0) \<and>
   returns_in_shape (bioemo_readings_to_volts_in binary64) (PyFloat (Fin 2)) \<and>
   bioemo_readings_to_volts_in binary64 PyStr = Inl TypeError \<and>
   returns_in_shape (unit_to_milliunit_in binary64) (PyFloat (Fin 2)) \<and>
   unit_to_milliunit_in binary64 PyStr = Inl TypeError \<and>
   unit_to_milliunit_in binary64 (PyInt (10 ^ 400)) = Inl OverflowError \<and>
   bioemo_volts_to_ohms_in binary64 (PyFloat (Fin (- 1))) = Inr (PyArr (Zero_d NaN))"
proof -
  have h: "float64_input (PyFloat (Fin 2))" "\<not> plain_list (PyFloat (Fin 2))"
      "string_input PyStr" "(2::int) ^ 1024 \<le> \<bar>10 ^ 400\<bar>" "(- 1 :: real) < 0"
    by simp_all
  have p: "bioemo_readings_to_volts_in binary64 \<in> set (pipeline_functions_in binary64)"
    by (simp add: pipeline_functions_in_def)
  have r: "unit_to_milliunit_in binary64 \<in> set (rescaling_helpers_in binary64)"
    by (simp add: rescaling_helpers_in_def)
  from conversions_return_or_raise [of "PyFloat (Fin 2)" PyStr "10 ^ 400" "- 1"] h p r
  show ?thesis by blast
qed

theorem conversions_return_or_raise_counterexample:
  "unit_to_kilounit_in binary64 (PyInt (10 ^ 400)) = Inl OverflowError"
proof -
  have "(2::int) ^ 1024 \<le> \<bar>10 ^ 400\<bar>" by simp
  then have "int_to_float binary64 (10 ^ 400) = Inl OverflowError"
    by (rule int_to_float_binary64_overflow)
  then show ?thesis by (simp add: unit_to_kilounit_in_def)
qed

text \<open>
  C9, with the rounding of float64.
  Just above \<open>exp 0.861\<close> the computed resistance need not be negative:
  at the float \<open>5326688836174327 / 2 ^ 51\<close>, whose logarithm exceeds 0.861, the rounded
  product equals the rounded offset, the resistance is 0 and the conductance infinite.
  What holds, with \<open>exp 0.861\<close> between 2.3655 and 2.36553: for every voltage \<open>V\<close> from
  2.36553 up to \<open>2 ^ 1023\<close>, \<^verbatim>\<open>bioemo_volts_to_ohms(V)\<close> and
  \<^verbatim>\<open>bioemo_volts_to_siemens(V)\<close> are negative floats, and so is
  \<^verbatim>\<open>bioemo_readings_to_siemens(x)\<close> for every reading \<open>x\<close> from 484 up to
  \<open>2 ^ 1000\<close>.
\<close>

theorem negative_conductance_above_margin:
  assumes "2.36553 \<le> V" and "V < 2 ^ 1023" and "484 \<le> x" and "x < 2 ^ 1000"
  shows "(\<exists>R. bioemo_volts_to_ohms_in binary64 (PyFloat (Fin V)) =
                Inr (PyArr (Zero_d (Fin R))) \<and> R < 0) \<and>
         (\<exists>S. bioemo_volts_to_siemens_in binary64 (PyFloat (Fin V)) =
                Inr (PyArr (Zero_d (Fin S))) \<and> S < 0) \<and>
         (\<exists>S. bioemo_readings_to_siemens_in binary64 (PyFloat (Fin x)) =
                Inr (PyArr (Zero_d (Fin S))) \<and> S < 0) \<and>
         2.3655 < exp (0.861::real) \<and> exp (0.861::real) < 2.36553"
proof (intro conjI)
  obtain R where R:
      "bioemo_volts_to_ohms_in binary64 (PyFloat (Fin V)) = Inr (PyArr (Zero_d (Fin R)))"
      "- (10 ^ 9) \<le> R" "R \<le> - 0.6"
    using assms(1,2) by (rule bioemo_volts_to_ohms_negative)
  obtain S where S: "float_truediv_in binary64 (Fin 1) (Fin R) = Fin S" "S < 0"
    using R(2,3) by (rule reciprocal_negative)
  have "R < 0" using R(3) by simp
  with R(1) show "\<exists>R. bioemo_volts_to_ohms_in binary64 (PyFloat (Fin V)) =
      Inr (PyArr (Zero_d (Fin R))) \<and> R < 0"
    by blast
  have "bioemo_volts_to_siemens_in binary64 (PyFloat (Fin V)) = Inr (PyArr (Zero_d (Fin S)))"
    using bioemo_volts_to_siemens_in_scalar(1) [OF R(1)] S(1) by simp
  with S(2) show "\<exists>S. bioemo_volts_to_siemens_in binary64 (PyFloat (Fin V)) =
      Inr (PyArr (Zero_d (Fin S))) \<and> S < 0"
    by blast
  obtain V' where V':
      "float_mul_in binary64 (float_truediv_in binary64 (Fin x) (Fin 1023)) (Fin 5) = Fin V'"
      "2.36553 \<le> V'" "V' < 2 ^ 1023"
    using assms(3,4) by (rule bioemo_readings_to_volts_above_margin)
  obtain R' where R':
      "bioemo_volts_to_ohms_in binary64 (PyFloat (Fin V')) = Inr (PyArr (Zero_d (Fin R')))"
      "- (10 ^ 9) \<le> R'" "R' \<le> - 0.6"
    using V'(2,3) by (rule bioemo_volts_to_ohms_negative)
  obtain S' where S': "float_truediv_in binary64 (Fin 1) (Fin R') = Fin S'" "S' < 0"
    using R'(2,3) by (rule reciprocal_negative)
  have "bioemo_readings_to_siemens_in binary64 (PyFloat (Fin x)) =
      Inr (PyArr (Zero_d (Fin S')))"
    using bioemo_volts_to_siemens_in_scalar(2) [OF R'(1)] S'(1) V'(1)
    by (simp add: bioemo_readings_to_siemens_in_scalar)
  with S'(2) show "\<exists>S. bioemo_readings_to_siemens_in binary64 (PyFloat (Fin x)) =
      Inr (PyArr (Zero_d (Fin S))) \<and> S < 0"
    by blast
  show "2.3655 < exp (0.861::real)" by (rule exp_threshold_lower)
  have "exp (0.861::real) < exp 0.861002" by simp
  also have "\<dots> < 2.36553" by (rule exp_margin_upper)
  finally show "exp (0.861::real) < 2.36553" .
qed

theorem negative_conductance_above_margin_witness:
  "((2.36553::real) \<le> 2.5 \<and> (2.5::real) < 2 ^ 1023 \<and>
    (484::real) \<le> 512 \<and> (512::real) < 2 ^ 1000) \<and>
   (\<exists>R. bioemo_volts_to_ohms_in binary64 (PyFloat (Fin 2.5)) =
          Inr (PyArr (Zero_d (Fin R))) \<and> R < 0) \<and>
   (\<exists>S. bioemo_volts_to_siemens_in binary64 (PyFloat (Fin 2.5)) =
          Inr (PyArr (Zero_d (Fin S))) \<and> S < 0) \<and>
   (\<exists>S. bioemo_readings_to_siemens_in binary64 (PyFloat (Fin 512)) =
          Inr (PyArr (Zero_d (Fin S))) \<and> S < 0)"
proof -
  have h: "(2.36553::real) \<le> 2.5" "(2.5::real) < 2 ^ 1023" "(484::real) \<le> 512"
      "(512::real) < 2 ^ 1000"
    by simp_all
  from negative_conductance_above_margin [OF h] h show ?thesis by simp
qed

theorem negative_conductance_counterexample:
  "bioemo_volts_to_ohms_in binary64 (PyFloat (Fin (5326688836174327 / 2 ^ 51))) =
     Inr (PyArr (Zero_d (Fin 0))) \<and>
   bioemo_volts_to_siemens_in binary64 (PyFloat (Fin (5326688836174327 / 2 ^ 51))) =
     Inr (PyArr (Zero_d PInf)) \<and>
   0.861 < ln (5326688836174327 / 2 ^ 51 :: real)"
proof -
  have ohms: "bioemo_volts_to_ohms_in binary64 (PyFloat (Fin (5326688836174327 / 2 ^ 51))) =
      Inr (PyArr (Zero_d (Fin 0)))"
    using binary64_ln_counterexample
    by (simp add: bioemo_volts_to_ohms_binary64 binary64_right_times_log binary64_zero)
  have "bioemo_volts_to_siemens_in binary64 (PyFloat (Fin (5326688836174327 / 2 ^ 51))) =
      Inr (PyArr (Zero_d PInf))"
    using bioemo_volts_to_siemens_in_scalar(1) [OF ohms] by simp
  moreover have "0.861 < ln (5326688836174327 / 2 ^ 51 :: real)"
    using ln_counterexample(1) by simp
  ultimately show ?thesis using ohms by blast
qed

text \<open>
  C10, with the rounding of float64.
  \<^verbatim>\<open>unit_to_kilounit(unit_to_milliunit(x))\<close> is not the identity on
  floats: on the float 0.0021 it returns the next float above. What holds for zero and
  for every float \<open>x\<close> whose magnitude lies between \<open>2 ^ -1000\<close> and \<open>2 ^ 1000\<close>: the
  composition is a finite float within the relative distance \<open>2 ^ -51\<close> of \<open>x\<close>, with no
  factor of a million.
\<close>

theorem milli_then_kilo_within_rounding:
  assumes "x = 0 \<or> 1 / 2 ^ 1000 \<le> \<bar>x\<bar> \<and> \<bar>x\<bar> \<le> 2 ^ 1000"
  shows "\<exists>z. and_then (unit_to_milliunit_in binary64 (PyFloat (Fin x)))
               (unit_to_kilounit_in binary64) = Inr (PyFloat (Fin z)) \<and>
             \<bar>z - x\<bar> \<le> \<bar>x\<bar> / 2 ^ 51"
proof (cases "x = 0")
  case True
  then show ?thesis
    by (simp add: milli_then_kilo_in_scalar binary64_zero)
next
  case False
  with assms have lo: "1 / 2 ^ 1000 \<le> \<bar>x\<bar>" and hi: "\<bar>x\<bar> \<le> 2 ^ 1000" by simp_all
  obtain a b where ab:
      "float_truediv_in binary64 (float_mul_in binary64 (Fin x) (Fin 1000)) (Fin 1000) =
         Fin (x * (a * b))"
      "1 - 1 / 2 ^ 53 \<le> a" "a \<le> 1 + 1 / 2 ^ 53" "1 - 1 / 2 ^ 53 \<le> b" "b \<le> 1 + 1 / 2 ^ 53"
    using lo hi by (rule milli_then_kilo)
  note t = two_factors [OF ab(2-5)]
  have "1 - 1 / 2 ^ 51 \<le> a * b" "a * b \<le> 1 + 1 / 2 ^ 51" using t by simp_all
  then have "\<bar>x * (a * b) - x\<bar> \<le> \<bar>x\<bar> / 2 ^ 51" by (rule relative_error)
  moreover have "and_then (unit_to_milliunit_in binary64 (PyFloat (Fin x)))
      (unit_to_kilounit_in binary64) = Inr (PyFloat (Fin (x * (a * b))))"
    by (simp only: milli_then_kilo_in_scalar ab(1))
  ultimately show ?thesis by blast
qed

theorem milli_then_kilo_within_rounding_witness:
  "((3::real) = 0 \<or> 1 / 2 ^ 1000 \<le> \<bar>3::real\<bar> \<and> \<bar>3::real\<bar> \<le> 2 ^ 1000) \<and>
   (\<exists>z. and_then (unit_to_milliunit_in binary64 (PyFloat (Fin 3)))
          (unit_to_kilounit_in binary64) = Inr (PyFloat (Fin z)) \<and>
        \<bar>z - 3\<bar> \<le> \<bar>3\<bar> / 2 ^ 51)"
proof -
  have h: "(3::real) = 0 \<or> 1 / 2 ^ 1000 \<le> \<bar>3::real\<bar> \<and> \<bar>3::real\<bar> \<le> 2 ^ 1000" by simp
  from milli_then_kilo_within_rounding [OF h] h show ?thesis by blast
qed

theorem milli_then_kilo_counterexample:
  "and_then (unit_to_milliunit_in binary64 (PyFloat (Fin (4842270319348757 / 2 ^ 61))))
     (unit_to_kilounit_in binary64) = Inr (PyFloat (Fin (4842270319348758 / 2 ^ 61))) \<and>
   (4842270319348758 / 2 ^ 61 :: real) \<noteq> 4842270319348757 / 2 ^ 61"
  by (simp add: unit_to_milliunit_in_def unit_to_kilounit_in_def binary64_milli_21
      binary64_kilo_21)

end
